theory Spec2Isabelle
  imports Main "HOL-Library.Word"
begin

section \<open>Strings\<close>

text \<open>
  A JavaScript string is a sequence of 16-bit code units. The three glyphs the keyboard
  treats specially lie outside ASCII, so labels are lists of code units; \<open>js\<close> writes an
  ASCII literal as such a list.
\<close>

type_synonym jsstring = "16 word list"

definition js :: "string \<Rightarrow> jsstring" where
  "js s = map of_char s"

text \<open>The sentinels of lines 186, 193 and 196: U+21E7, U+2190 and U+21B5.\<close>

definition shiftGlyph :: jsstring where
  "shiftGlyph = [0x21E7]"

definition backspaceGlyph :: jsstring where
  "backspaceGlyph = [0x2190]"

definition enterGlyph :: jsstring where
  "enterGlyph = [0x21B5]"

text \<open>
  \<open>String.prototype.toUpperCase\<close> and \<open>toLowerCase\<close>, called at lines 149 and 200,
  belong to the language and follow the case mappings of Unicode, which are no part of
  the source file. Every function that calls them takes the two methods as the
  parameter \<open>str\<close>, and every theorem holds for whatever they compute, unless it
  states what it assumes of them.
\<close>

record StringPrototype =
  toUpperCase :: "jsstring \<Rightarrow> jsstring"
  toLowerCase :: "jsstring \<Rightarrow> jsstring"

section \<open>Data model\<close>

text \<open>Class \<open>KeyPropertySet\<close> (lines 12-29): every field is optional.\<close>

record KeyPropertySet =
  width :: "jsstring option"
  height :: "jsstring option"
  paddingLeft :: "jsstring option"
  paddingRight :: "jsstring option"
  paddingTop :: "jsstring option"
  paddingBottom :: "jsstring option"
  color :: "jsstring option"
  background :: "jsstring option"

text \<open>The label of a key: the \<open>TextBlock\<close> that is the first child of its button.\<close>

record TextBlock =
  "text" :: jsstring

text \<open>
  A key button, with the properties \<open>_createKey\<close> assigns. \<open>onPointerUpObservable\<close>
  holds, for each closure registered at line 89, the key that the closure re-emits.
\<close>

record Button =
  name :: jsstring
  width :: jsstring
  height :: jsstring
  color :: jsstring
  background :: jsstring
  paddingLeft :: jsstring
  paddingRight :: jsstring
  paddingTop :: jsstring
  paddingBottom :: jsstring
  thickness :: int
  isFocusInvisible :: bool
  shadowColor :: jsstring
  shadowBlur :: int
  shadowOffsetX :: int
  shadowOffsetY :: int
  onPointerUpObservable :: "jsstring list"
  children :: "TextBlock list"

text \<open>
  A row is a \<open>StackPanel\<close> of buttons. The loops of \<open>applyShiftState\<close> guard against a
  null child (\<open>None\<close>) and against a child that has no \<open>children\<close> (\<open>PlainControl\<close>).
\<close>

record StackPanel =
  isVertical :: bool
  isFocusInvisible :: bool
  children :: "Button option list"

datatype Control = PlainControl | Container StackPanel

text \<open>
  The keyboard (lines 34-63 and 154-157), with the inherited state the source reads or
  writes: the shadow properties, \<open>isVisible\<close> and \<open>children\<close>. An observer is a natural
  number, unique within its observable; the observers of \<open>onKeyPressObservable\<close> are the
  routing closures registered at line 181. The attached input is a reference into the
  store of the text inputs.
\<close>

record VirtualKeyboard =
  onKeyPressObservable :: "nat list"
  defaultButtonWidth :: jsstring
  defaultButtonHeight :: jsstring
  defaultButtonPaddingLeft :: jsstring
  defaultButtonPaddingRight :: jsstring
  defaultButtonPaddingTop :: jsstring
  defaultButtonPaddingBottom :: jsstring
  defaultButtonColor :: jsstring
  defaultButtonBackground :: jsstring
  shiftButtonColor :: jsstring
  selectedShiftThickness :: int
  shiftState :: int
  shadowColor :: jsstring
  shadowBlur :: int
  shadowOffsetX :: int
  shadowOffsetY :: int
  isVisible :: bool
  children :: "Control option list"
  connectedInputText :: "nat option"
  onFocusObserver :: "nat option"
  onBlurObserver :: "nat option"
  onKeyPressObserver :: "nat option"

text \<open>
  Modelled from the spec: the text-input control, which is not part of this source file.
  It exposes a focus event, a blur event and the command entry point
  \<open>processKey(code, character?)\<close>; the model keeps the observers of the two events and
  the calls of \<open>processKey\<close> in the order they were made.
\<close>

record InputText =
  onFocusObservable :: "nat list"
  onBlurObservable :: "nat list"
  processKeyCalls :: "(int \<times> jsstring option) list"

text \<open>The keyboard and the text inputs it may be attached to, each at its reference.\<close>

record World =
  keyboard :: VirtualKeyboard
  inputs :: "nat \<Rightarrow> InputText"

datatype error = TypeError

section \<open>Construction\<close>

text \<open>
  Modelled from the spec: the inherited constructor of the panel, which is not part of
  this source file. The panel is created empty; the argument carries the inherited
  properties that the specification does not fix, the shadow and the visibility.
\<close>

definition StackPanel_super :: "VirtualKeyboard \<Rightarrow> VirtualKeyboard" where
  "StackPanel_super base = base\<lparr>VirtualKeyboard.children := []\<rparr>"

text \<open>
  \<open>new VirtualKeyboard()\<close>: the field initialisers of lines 36-63, applied to the object
  that the inherited constructor leaves. The four private fields of lines 154-157 have
  no initialiser.
\<close>

definition VirtualKeyboard_new :: "VirtualKeyboard \<Rightarrow> VirtualKeyboard" where
  "VirtualKeyboard_new base = (StackPanel_super base)\<lparr>
     onKeyPressObservable := [],
     defaultButtonWidth := js ''40px'',
     defaultButtonHeight := js ''40px'',
     defaultButtonPaddingLeft := js ''2px'',
     defaultButtonPaddingRight := js ''2px'',
     defaultButtonPaddingTop := js ''2px'',
     defaultButtonPaddingBottom := js ''2px'',
     defaultButtonColor := js ''#DDD'',
     defaultButtonBackground := js ''#070707'',
     shiftButtonColor := js ''#7799FF'',
     selectedShiftThickness := 1,
     shiftState := 0,
     connectedInputText := None,
     onFocusObserver := None,
     onBlurObserver := None,
     onKeyPressObserver := None\<rparr>"

text \<open>
  \<open>propertySet && propertySet.f ? propertySet.f : dflt\<close> (lines 72-79): the default is
  taken when the property set is null, when the field is absent and when it is the
  empty string.
\<close>

definition propertyOr :: "KeyPropertySet option \<Rightarrow> (KeyPropertySet \<Rightarrow> jsstring option) \<Rightarrow> jsstring \<Rightarrow> jsstring" where
  "propertyOr propertySet f dflt =
     (case propertySet of
        None \<Rightarrow> dflt
      | Some p \<Rightarrow> (case f p of None \<Rightarrow> dflt | Some v \<Rightarrow> if v = [] then dflt else v))"

text \<open>
  Modelled from the spec: the factory \<open>Button.CreateSimpleButton\<close>, which is not part of
  this source file. It produces a button with an embedded text label as its first
  child, and nothing listens to the button yet. The other properties are placeholders
  here: \<open>_createKey\<close> assigns every one of them.
\<close>

definition CreateSimpleButton :: "jsstring \<Rightarrow> jsstring \<Rightarrow> Button" where
  "CreateSimpleButton buttonName label = \<lparr>
     name = buttonName,
     width = [],
     height = [],
     color = [],
     background = [],
     paddingLeft = [],
     paddingRight = [],
     paddingTop = [],
     paddingBottom = [],
     thickness = 0,
     Button.isFocusInvisible = False,
     Button.shadowColor = [],
     Button.shadowBlur = 0,
     Button.shadowOffsetX = 0,
     Button.shadowOffsetY = 0,
     onPointerUpObservable = [],
     Button.children = [\<lparr>text = label\<rparr>]\<rparr>"

text \<open>\<open>_createKey\<close>, lines 69-94.\<close>

definition createKey :: "VirtualKeyboard \<Rightarrow> jsstring \<Rightarrow> KeyPropertySet option \<Rightarrow> Button" where
  "createKey this key propertySet = (CreateSimpleButton key key)\<lparr>
     width := propertyOr propertySet KeyPropertySet.width (defaultButtonWidth this),
     height := propertyOr propertySet KeyPropertySet.height (defaultButtonHeight this),
     color := propertyOr propertySet KeyPropertySet.color (defaultButtonColor this),
     background := propertyOr propertySet KeyPropertySet.background (defaultButtonBackground this),
     paddingLeft := propertyOr propertySet KeyPropertySet.paddingLeft (defaultButtonPaddingLeft this),
     paddingRight := propertyOr propertySet KeyPropertySet.paddingRight (defaultButtonPaddingRight this),
     paddingTop := propertyOr propertySet KeyPropertySet.paddingTop (defaultButtonPaddingTop this),
     paddingBottom := propertyOr propertySet KeyPropertySet.paddingBottom (defaultButtonPaddingBottom this),
     thickness := 0,
     Button.isFocusInvisible := True,
     Button.shadowColor := VirtualKeyboard.shadowColor this,
     Button.shadowBlur := VirtualKeyboard.shadowBlur this,
     Button.shadowOffsetX := VirtualKeyboard.shadowOffsetX this,
     Button.shadowOffsetY := VirtualKeyboard.shadowOffsetY this,
     onPointerUpObservable := onPointerUpObservable (CreateSimpleButton key key) @ [key]\<rparr>"

text \<open>
  Modelled from the spec: \<open>new StackPanel()\<close>, whose constructor is not part of this
  source file. The panel is created empty; its two other properties are placeholders
  here: \<open>addKeysRow\<close> assigns both.
\<close>

definition StackPanel_new :: StackPanel where
  "StackPanel_new = \<lparr>isVertical = True, StackPanel.isFocusInvisible = False, StackPanel.children = []\<rparr>"

text \<open>
  The loop of lines 106-114, on the row panel built so far; \<open>addControl\<close> appends the
  new button to the children of the panel.
\<close>

function addKeysRow_loop ::
  "VirtualKeyboard \<Rightarrow> jsstring list \<Rightarrow> KeyPropertySet list option \<Rightarrow> nat \<Rightarrow> StackPanel \<Rightarrow> StackPanel" where
  "addKeysRow_loop this keys propertySets i panel =
     (if i < length keys then
        (let properties =
               (case propertySets of
                  None \<Rightarrow> None
                | Some ps \<Rightarrow> if length ps = length keys then Some (ps ! i) else None)
         in addKeysRow_loop this keys propertySets (Suc i)
              (panel\<lparr>StackPanel.children :=
                 StackPanel.children panel @ [Some (createKey this (keys ! i) properties)]\<rparr>))
      else panel)"
  by pat_completeness auto
termination
  by (relation "measure (\<lambda>(this, keys, propertySets, i, panel). length keys - i)") auto

declare addKeysRow_loop.simps [simp del]

definition addKeysRow :: "jsstring list \<Rightarrow> KeyPropertySet list option \<Rightarrow> VirtualKeyboard \<Rightarrow> VirtualKeyboard" where
  "addKeysRow keys propertySets this =
     (let panel = addKeysRow_loop this keys propertySets 0
                    (StackPanel_new\<lparr>isVertical := False, StackPanel.isFocusInvisible := True\<rparr>)
      in this\<lparr>VirtualKeyboard.children := VirtualKeyboard.children this @ [Some (Container panel)]\<rparr>)"

text \<open>The style of the space bar at line 237: only the width is given.\<close>

definition spaceBarProperties :: KeyPropertySet where
  "spaceBarProperties = \<lparr>
     KeyPropertySet.width = Some (js ''200px''),
     KeyPropertySet.height = None,
     KeyPropertySet.paddingLeft = None,
     KeyPropertySet.paddingRight = None,
     KeyPropertySet.paddingTop = None,
     KeyPropertySet.paddingBottom = None,
     KeyPropertySet.color = None,
     KeyPropertySet.background = None\<rparr>"

text \<open>
  \<open>CreateDefaultLayout\<close>, lines 230-240, on the object that the inherited constructor
  leaves; \<open>[0x27]\<close> is the label of the apostrophe key.
\<close>

definition CreateDefaultLayout :: "VirtualKeyboard \<Rightarrow> VirtualKeyboard" where
  "CreateDefaultLayout super =
     addKeysRow [js '' ''] (Some [spaceBarProperties])
    (addKeysRow [shiftGlyph, js ''z'', js ''x'', js ''c'', js ''v'', js ''b'', js ''n'', js ''m'',
                 js '','', js ''.'', js ''/''] None
    (addKeysRow [js ''a'', js ''s'', js ''d'', js ''f'', js ''g'', js ''h'', js ''j'', js ''k'',
                 js ''l'', js '';'', [0x27], enterGlyph] None
    (addKeysRow [js ''q'', js ''w'', js ''e'', js ''r'', js ''t'', js ''y'', js ''u'', js ''i'',
                 js ''o'', js ''p''] None
    (addKeysRow [js ''1'', js ''2'', js ''3'', js ''4'', js ''5'', js ''6'', js ''7'', js ''8'',
                 js ''9'', js ''0'', backspaceGlyph] None
    (VirtualKeyboard_new super)))))"

section \<open>Shift state\<close>

text \<open>The body of the inner loop, lines 138-149, for a button that is not null.\<close>

definition applyShiftState_button :: "StringPrototype \<Rightarrow> VirtualKeyboard \<Rightarrow> int \<Rightarrow> Button \<Rightarrow> Button" where
  "applyShiftState_button str this state button =
     (case Button.children button of
        [] \<Rightarrow> button
      | button_tblock # rest \<Rightarrow>
          (let button1 =
                 (if text button_tblock = shiftGlyph then
                    button\<lparr>color := (if state \<noteq> 0 then shiftButtonColor this else defaultButtonColor this),
                           thickness := (if state > 1 then selectedShiftThickness this else 0)\<rparr>
                  else button)
           in button1\<lparr>Button.children :=
                button_tblock\<lparr>text := (if state > 0 then toUpperCase str (text button_tblock)
                                        else toLowerCase str (text button_tblock))\<rparr> # rest\<rparr>))"

text \<open>The inner loop, lines 135-150.\<close>

function applyShiftState_row :: "StringPrototype \<Rightarrow> VirtualKeyboard \<Rightarrow> int \<Rightarrow> nat \<Rightarrow> Button option list \<Rightarrow> Button option list" where
  "applyShiftState_row str this state j buttons =
     (if j < length buttons then
        applyShiftState_row str this state (Suc j)
          (case buttons ! j of
             None \<Rightarrow> buttons
           | Some button \<Rightarrow> buttons[j := Some (applyShiftState_button str this state button)])
      else buttons)"
  by pat_completeness auto
termination
  by (relation "measure (\<lambda>(str, this, state, j, buttons). length buttons - j)")
     (auto split: option.splits)

declare applyShiftState_row.simps [simp del]

text \<open>
  The outer loop, lines 128-151. The guard of line 124 never fires: a panel always has
  its list of children, which is empty when the panel has no rows.
\<close>

function applyShiftState_rows :: "StringPrototype \<Rightarrow> VirtualKeyboard \<Rightarrow> int \<Rightarrow> nat \<Rightarrow> Control option list \<Rightarrow> Control option list" where
  "applyShiftState_rows str this state i rows =
     (if i < length rows then
        applyShiftState_rows str this state (Suc i)
          (case rows ! i of
             None \<Rightarrow> rows
           | Some PlainControl \<Rightarrow> rows
           | Some (Container rowContainer) \<Rightarrow>
               rows[i := Some (Container (rowContainer\<lparr>StackPanel.children :=
                  applyShiftState_row str this state 0 (StackPanel.children rowContainer)\<rparr>))])
      else rows)"
  by pat_completeness auto
termination
  by (relation "measure (\<lambda>(str, this, state, i, rows). length rows - i)")
     (auto split: option.splits Control.splits)

declare applyShiftState_rows.simps [simp del]

definition applyShiftState :: "StringPrototype \<Rightarrow> int \<Rightarrow> VirtualKeyboard \<Rightarrow> VirtualKeyboard" where
  "applyShiftState str state this =
     this\<lparr>VirtualKeyboard.children := applyShiftState_rows str this state 0 (VirtualKeyboard.children this)\<rparr>"

section \<open>Attaching to a text input\<close>

text \<open>
  Modelled from the spec: the toolkit's observable, which is not part of this source
  file. Subscribing appends an observer that the observable does not hold yet and
  returns it; unsubscribing takes the observer out, and does nothing for null.
\<close>

definition newObserver :: "nat list \<Rightarrow> nat" where
  "newObserver observers = Suc (foldr max observers 0)"

definition removeObserver :: "nat option \<Rightarrow> nat list \<Rightarrow> nat list" where
  "removeObserver observer observers =
     (case observer of None \<Rightarrow> observers | Some ob \<Rightarrow> remove1 ob observers)"

text \<open>\<open>connect\<close>, lines 168-207; the closure of lines 181-206 is \<open>onKeyPress\<close> below.\<close>

definition connect :: "nat \<Rightarrow> World \<Rightarrow> World" where
  "connect input w =
     (let this = keyboard w;
          i = inputs w input;
          focusOb = newObserver (onFocusObservable i);
          blurOb = newObserver (onBlurObservable i);
          keyOb = newObserver (onKeyPressObservable this)
      in w\<lparr>keyboard := this\<lparr>
              isVisible := False,
              connectedInputText := Some input,
              onFocusObserver := Some focusOb,
              onBlurObserver := Some blurOb,
              onKeyPressObserver := Some keyOb,
              onKeyPressObservable := onKeyPressObservable this @ [keyOb]\<rparr>,
           inputs := (inputs w)(input := i\<lparr>
              onFocusObservable := onFocusObservable i @ [focusOb],
              onBlurObservable := onBlurObservable i @ [blurOb]\<rparr>)\<rparr>)"

text \<open>
  The call \<open>this._connectedInputText.processKey(code, key)\<close> of lines 194, 197 and 200:
  a \<open>TypeError\<close> when the reference is null, and otherwise one more call in the record of
  the attached input.
\<close>

definition processKey :: "int \<Rightarrow> jsstring option \<Rightarrow> World \<Rightarrow> error + World" where
  "processKey code key w =
     (case connectedInputText (keyboard w) of
        None \<Rightarrow> Inl TypeError
      | Some input \<Rightarrow>
          Inr (w\<lparr>inputs := (inputs w)(input := (inputs w input)\<lparr>
                 processKeyCalls := processKeyCalls (inputs w input) @ [(code, key)]\<rparr>)\<rparr>))"

text \<open>The routing closure, lines 181-206.\<close>

definition onKeyPress :: "StringPrototype \<Rightarrow> jsstring \<Rightarrow> World \<Rightarrow> error + World" where
  "onKeyPress str key w =
     (let this = keyboard w in
      if connectedInputText this = None then Inr w
      else if key = shiftGlyph then
        (let s1 = shiftState this + 1;
             s2 = (if s1 > 2 then 0 else s1)
         in Inr (w\<lparr>keyboard := applyShiftState str s2 (this\<lparr>shiftState := s2\<rparr>)\<rparr>))
      else if key = backspaceGlyph then processKey 8 None w
      else if key = enterGlyph then processKey 13 None w
      else
        (case processKey (- 1) (Some (if shiftState this \<noteq> 0 then toUpperCase str key else key)) w of
           Inl e \<Rightarrow> Inl e
         | Inr w1 \<Rightarrow>
             (if shiftState (keyboard w1) = 1 then
                Inr (w1\<lparr>keyboard := applyShiftState str 0 ((keyboard w1)\<lparr>shiftState := 0\<rparr>)\<rparr>)
              else Inr w1)))"

text \<open>
  Modelled from the spec: \<open>notifyObservers\<close> of the toolkit's observable, for the
  key-press event of the panel. Every registered routing closure runs with the key, in
  the order of registration, and an error of one of them ends the event.
\<close>

fun notifyObservers :: "StringPrototype \<Rightarrow> nat list \<Rightarrow> jsstring \<Rightarrow> World \<Rightarrow> error + World" where
  "notifyObservers str [] key w = Inr w"
| "notifyObservers str (ob # obs) key w =
     (case onKeyPress str key w of Inl e \<Rightarrow> Inl e | Inr w1 \<Rightarrow> notifyObservers str obs key w1)"

text \<open>The key-press event of the panel, which the closure of line 89 raises with its key.\<close>

definition keyPress :: "StringPrototype \<Rightarrow> jsstring \<Rightarrow> World \<Rightarrow> error + World" where
  "keyPress str key w = notifyObservers str (onKeyPressObservable (keyboard w)) key w"

text \<open>A sequence of key-press events, one after the other.\<close>

fun keyPresses :: "StringPrototype \<Rightarrow> jsstring list \<Rightarrow> World \<Rightarrow> error + World" where
  "keyPresses str [] w = Inr w"
| "keyPresses str (key # keys) w =
     (case keyPress str key w of Inl e \<Rightarrow> Inl e | Inr w1 \<Rightarrow> keyPresses str keys w1)"

text \<open>
  \<open>disconnect\<close>, lines 212-222. Past the guard each of lines 217 and 218 reads a
  property of \<open>this._connectedInputText\<close>, a \<open>TypeError\<close> if the reference were null.
\<close>

definition disconnect :: "World \<Rightarrow> error + World" where
  "disconnect w =
     (let this = keyboard w in
      if connectedInputText this = None then Inr w
      else
        (case connectedInputText this of
           None \<Rightarrow> Inl TypeError
         | Some input \<Rightarrow>
             Inr (w\<lparr>inputs := (inputs w)(input := (inputs w input)\<lparr>
                      onFocusObservable :=
                        removeObserver (onFocusObserver this) (onFocusObservable (inputs w input)),
                      onBlurObservable :=
                        removeObserver (onBlurObserver this) (onBlurObservable (inputs w input))\<rparr>),
                    keyboard := this\<lparr>
                      onKeyPressObservable :=
                        removeObserver (onKeyPressObserver this) (onKeyPressObservable this),
                      connectedInputText := None\<rparr>\<rparr>)))"

text \<open>
  A panel attached to an input on which exactly one routing closure is registered, as
  after one call of \<open>connect\<close> on a new keyboard. A second \<open>connect\<close> without
  \<open>disconnect\<close> registers a second closure.
\<close>

definition connectedOnce :: "World \<Rightarrow> bool" where
  "connectedOnce w =
     (connectedInputText (keyboard w) \<noteq> None \<and> length (onKeyPressObservable (keyboard w)) = 1)"

section \<open>Reading a panel\<close>

text \<open>
  The value of \<open>properties\<close> in iteration \<open>i\<close> of the loop of \<open>addKeysRow\<close>
  (lines 107-111).
\<close>

definition rowProperties :: "jsstring list \<Rightarrow> KeyPropertySet list option \<Rightarrow> nat \<Rightarrow> KeyPropertySet option" where
  "rowProperties keys propertySets i =
     (case propertySets of
        None \<Rightarrow> None
      | Some ps \<Rightarrow> if length ps = length keys then Some (ps ! i) else None)"

text \<open>The buttons of a row, and the label a button shows.\<close>

definition rowButtons :: "Control option \<Rightarrow> Button option list" where
  "rowButtons row = (case row of Some (Container panel) \<Rightarrow> StackPanel.children panel | _ \<Rightarrow> [])"

definition buttonLabel :: "Button option \<Rightarrow> jsstring option" where
  "buttonLabel button =
     (case button of
        None \<Rightarrow> None
      | Some b \<Rightarrow> (case Button.children b of [] \<Rightarrow> None | tb # _ \<Rightarrow> Some (text tb)))"

text \<open>
  The eight style fields of a key: the button property, the field of the style entry
  that may override it and the default of the panel.
\<close>

definition styleFields ::
  "((Button \<Rightarrow> jsstring) \<times> (KeyPropertySet \<Rightarrow> jsstring option) \<times> (VirtualKeyboard \<Rightarrow> jsstring)) list" where
  "styleFields =
     [(Button.width, KeyPropertySet.width, defaultButtonWidth),
      (Button.height, KeyPropertySet.height, defaultButtonHeight),
      (Button.color, KeyPropertySet.color, defaultButtonColor),
      (Button.background, KeyPropertySet.background, defaultButtonBackground),
      (Button.paddingLeft, KeyPropertySet.paddingLeft, defaultButtonPaddingLeft),
      (Button.paddingRight, KeyPropertySet.paddingRight, defaultButtonPaddingRight),
      (Button.paddingTop, KeyPropertySet.paddingTop, defaultButtonPaddingTop),
      (Button.paddingBottom, KeyPropertySet.paddingBottom, defaultButtonPaddingBottom)]"

text \<open>
  What the style list supplies for a field of key \<open>i\<close>, in the words of the
  specification: nothing when no list is given or its length is not that of the
  labels, nothing when the entry leaves the field unset or empty, and the value of the
  entry otherwise.
\<close>

definition suppliedStyle ::
  "jsstring list \<Rightarrow> KeyPropertySet list option \<Rightarrow> nat \<Rightarrow> (KeyPropertySet \<Rightarrow> jsstring option) \<Rightarrow> jsstring option" where
  "suppliedStyle keys propertySets i f =
     (case propertySets of
        None \<Rightarrow> None
      | Some ps \<Rightarrow>
          if length ps = length keys then
            (case f (ps ! i) of None \<Rightarrow> None | Some v \<Rightarrow> if v = [] then None else Some v)
          else None)"

text \<open>
  The number of pixels that a size such as \<open>40px\<close> stands for, to compare the width of
  the space bar with the default width as the specification does.
\<close>

fun pixels_from :: "nat \<Rightarrow> jsstring \<Rightarrow> nat option" where
  "pixels_from n [] = None"
| "pixels_from n (c # cs) =
     (if 0x30 \<le> c \<and> c \<le> 0x39 then pixels_from (10 * n + unat (c - 0x30)) cs
      else if c # cs = js ''px'' then Some n else None)"

definition pixels :: "jsstring \<Rightarrow> nat option" where
  "pixels s = pixels_from 0 s"

section \<open>Example panels\<close>

text \<open>
  An object as an inherited constructor may leave it: visible, without shadow, and with
  the fields of the keyboard not yet initialised.
\<close>

definition blankKeyboard :: VirtualKeyboard where
  "blankKeyboard = \<lparr>
     onKeyPressObservable = [],
     defaultButtonWidth = [],
     defaultButtonHeight = [],
     defaultButtonPaddingLeft = [],
     defaultButtonPaddingRight = [],
     defaultButtonPaddingTop = [],
     defaultButtonPaddingBottom = [],
     defaultButtonColor = [],
     defaultButtonBackground = [],
     shiftButtonColor = [],
     selectedShiftThickness = 0,
     shiftState = 0,
     VirtualKeyboard.shadowColor = js ''#000'',
     VirtualKeyboard.shadowBlur = 0,
     VirtualKeyboard.shadowOffsetX = 0,
     VirtualKeyboard.shadowOffsetY = 0,
     isVisible = True,
     VirtualKeyboard.children = [],
     connectedInputText = None,
     onFocusObserver = None,
     onBlurObserver = None,
     onKeyPressObserver = None\<rparr>"

text \<open>A new keyboard with one row: the shift key and the key \<open>a\<close>.\<close>

definition exampleKeyboard :: VirtualKeyboard where
  "exampleKeyboard = addKeysRow [shiftGlyph, js ''a''] None (VirtualKeyboard_new blankKeyboard)"

text \<open>That keyboard and text inputs that nothing observes and that received no key.\<close>

definition exampleWorld :: World where
  "exampleWorld = \<lparr>
     keyboard = exampleKeyboard,
     inputs = (\<lambda>_. \<lparr>onFocusObservable = [], onBlurObservable = [], processKeyCalls = []\<rparr>)\<rparr>"

text \<open>
  The two string methods for the examples: on a string of Basic Latin characters and
  the three glyphs, \<open>toUpperCase\<close> and \<open>toLowerCase\<close> change the letters \<open>a\<close> to \<open>z\<close> and
  \<open>A\<close> to \<open>Z\<close> and nothing else. Only statements about the example panels, whose
  labels and keys are such strings, use this instance.
\<close>

definition upperUnit :: "16 word \<Rightarrow> 16 word" where
  "upperUnit c = (if 0x61 \<le> c \<and> c \<le> 0x7A then c - 0x20 else c)"

definition lowerUnit :: "16 word \<Rightarrow> 16 word" where
  "lowerUnit c = (if 0x41 \<le> c \<and> c \<le> 0x5A then c + 0x20 else c)"

definition basicLatin :: StringPrototype where
  "basicLatin = \<lparr>toUpperCase = map upperUnit, toLowerCase = map lowerUnit\<rparr>"

text \<open>A style entry whose width is the empty string.\<close>

definition emptyWidthProperties :: KeyPropertySet where
  "emptyWidthProperties = \<lparr>
     KeyPropertySet.width = Some [],
     KeyPropertySet.height = None,
     KeyPropertySet.paddingLeft = None,
     KeyPropertySet.paddingRight = None,
     KeyPropertySet.paddingTop = None,
     KeyPropertySet.paddingBottom = None,
     KeyPropertySet.color = None,
     KeyPropertySet.background = None\<rparr>"

text \<open>The example keyboard after \<open>connect\<close> to the text input at reference 0.\<close>

definition connectedWorld :: World where
  "connectedWorld = connect 0 exampleWorld"

text \<open>
  The example keyboard after \<open>connect\<close> to the input at 0, \<open>connect\<close> to the input at 1
  and \<open>disconnect\<close>: the routing closure of the first \<open>connect\<close> is still registered.
\<close>

definition leakedWorld :: World where
  "leakedWorld =
     (case disconnect (connect 1 (connect 0 exampleWorld)) of
        Inl e \<Rightarrow> exampleWorld
      | Inr w \<Rightarrow> w)"

text \<open>
  The example keyboard after \<open>connect\<close> to the input at 1 and \<open>connect\<close> to the input at
  0, with no \<open>disconnect\<close> between: two routing closures are registered and the input
  at 0 is attached.
\<close>

definition twiceConnectedWorld :: World where
  "twiceConnectedWorld = connect 0 (connect 1 exampleWorld)"

text \<open>
  The world after a sequence of key-press events, the shift state then, and the calls
  of \<open>processKey\<close> that an input has received then.
\<close>

definition worldAfter :: "StringPrototype \<Rightarrow> jsstring list \<Rightarrow> World \<Rightarrow> World" where
  "worldAfter str keys w = (case keyPresses str keys w of Inl e \<Rightarrow> w | Inr w' \<Rightarrow> w')"

definition stateAfter :: "StringPrototype \<Rightarrow> jsstring list \<Rightarrow> World \<Rightarrow> int option" where
  "stateAfter str keys w =
     (case keyPresses str keys w of Inl e \<Rightarrow> None | Inr w' \<Rightarrow> Some (shiftState (keyboard w')))"

definition callsAfter ::
  "StringPrototype \<Rightarrow> jsstring list \<Rightarrow> World \<Rightarrow> nat \<Rightarrow> (int \<times> jsstring option) list option" where
  "callsAfter str keys w input =
     (case keyPresses str keys w of
        Inl e \<Rightarrow> None
      | Inr w' \<Rightarrow> Some (processKeyCalls (inputs w' input)))"

section \<open>The example string methods\<close>

lemma upperUnit_idem: "upperUnit (upperUnit c) = upperUnit c"
  unfolding upperUnit_def by unat_arith

lemma lowerUnit_idem: "lowerUnit (lowerUnit c) = lowerUnit c"
  unfolding lowerUnit_def by unat_arith

lemma upperUnit_glyph: "upperUnit c = 0x21E7 \<longleftrightarrow> c = 0x21E7"
  unfolding upperUnit_def by unat_arith

lemma lowerUnit_glyph: "lowerUnit c = 0x21E7 \<longleftrightarrow> c = 0x21E7"
  unfolding lowerUnit_def by unat_arith

lemma basicLatin_idem:
  "toUpperCase basicLatin (toUpperCase basicLatin s) = toUpperCase basicLatin s"
  "toLowerCase basicLatin (toLowerCase basicLatin s) = toLowerCase basicLatin s"
  by (simp_all add: basicLatin_def upperUnit_idem lowerUnit_idem)

lemma basicLatin_glyph:
  "toUpperCase basicLatin s = shiftGlyph \<Longrightarrow> s = shiftGlyph"
  "toLowerCase basicLatin s = shiftGlyph \<Longrightarrow> s = shiftGlyph"
  by (cases s; auto simp: basicLatin_def shiftGlyph_def upperUnit_glyph lowerUnit_glyph)+

lemma basicLatin_values:
  "toUpperCase basicLatin (js ''a'') = js ''A''"
  "toLowerCase basicLatin (js ''a'') = js ''a''"
  "toLowerCase basicLatin (js ''A'') = js ''a''"
  "toUpperCase basicLatin shiftGlyph = shiftGlyph"
  "toLowerCase basicLatin shiftGlyph = shiftGlyph"
  by (simp_all add: basicLatin_def js_def shiftGlyph_def upperUnit_def lowerUnit_def)

section \<open>The loops of applyShiftState\<close>

text \<open>
  Each loop walks its list by index and rewrites the element it stands on: when it has
  reached index \<open>j\<close>, the elements before \<open>j\<close> are as the caller passed them and the
  others get the body applied.
\<close>

lemma applyShiftState_row_eq:
  "j \<le> length buttons \<Longrightarrow> applyShiftState_row str this state j buttons =
     take j buttons @ map (map_option (applyShiftState_button str this state)) (drop j buttons)"
proof (induction str this state j buttons rule: applyShiftState_row.induct)
  case (1 str this state j buttons)
  let ?f = "map_option (applyShiftState_button str this state)"
  let ?buttons' = "case buttons ! j of None \<Rightarrow> buttons
     | Some button \<Rightarrow> buttons[j := Some (applyShiftState_button str this state button)]"
  show ?case
  proof (cases "j < length buttons")
    case False
    with "1.prems" show ?thesis by (subst applyShiftState_row.simps) simp
  next
    case True
    have same: "buttons[j := buttons ! j] = buttons" by (rule list_update_id)
    have upd: "?buttons' = buttons[j := ?f (buttons ! j)]"
      using same by (cases "buttons ! j") simp_all
    have len: "Suc j \<le> length ?buttons'"
      using True by (simp only: upd length_list_update Suc_le_eq)
    have "applyShiftState_row str this state j buttons = applyShiftState_row str this state (Suc j) ?buttons'"
      using True by (subst applyShiftState_row.simps) (simp only: if_True)
    also have "\<dots> = take (Suc j) ?buttons' @ map ?f (drop (Suc j) ?buttons')"
      using "1.IH" [OF True len] .
    also have "\<dots> = (take j buttons @ [?f (buttons ! j)]) @ map ?f (drop (Suc j) buttons)"
      using True by (simp only: upd) (simp add: take_Suc_conv_app_nth)
    also have "\<dots> = take j buttons @ map ?f (buttons ! j # drop (Suc j) buttons)"
      by simp
    also have "buttons ! j # drop (Suc j) buttons = drop j buttons"
      using True by (rule Cons_nth_drop_Suc)
    finally show ?thesis .
  qed
qed

lemma applyShiftState_row_0:
  "applyShiftState_row str this state 0 buttons = map (map_option (applyShiftState_button str this state)) buttons"
  using applyShiftState_row_eq [of 0 buttons str this state] by simp

lemma applyShiftState_rows_eq:
  "i \<le> length rows \<Longrightarrow> applyShiftState_rows str this state i rows =
     take i rows @ map (map_option (\<lambda>c. case c of PlainControl \<Rightarrow> PlainControl
        | Container r \<Rightarrow> Container (r\<lparr>StackPanel.children :=
             map (map_option (applyShiftState_button str this state)) (StackPanel.children r)\<rparr>)))
       (drop i rows)"
proof (induction str this state i rows rule: applyShiftState_rows.induct)
  case (1 str this state i rows)
  let ?F = "map_option (\<lambda>c. case c of PlainControl \<Rightarrow> PlainControl
        | Container r \<Rightarrow> Container (r\<lparr>StackPanel.children :=
             map (map_option (applyShiftState_button str this state)) (StackPanel.children r)\<rparr>))"
  let ?rows' = "case rows ! i of None \<Rightarrow> rows | Some PlainControl \<Rightarrow> rows
     | Some (Container rowContainer) \<Rightarrow>
               rows[i := Some (Container (rowContainer\<lparr>StackPanel.children :=
                  applyShiftState_row str this state 0 (StackPanel.children rowContainer)\<rparr>))]"
  show ?case
  proof (cases "i < length rows")
    case False
    with "1.prems" show ?thesis by (subst applyShiftState_rows.simps) simp
  next
    case True
    have same: "rows[i := rows ! i] = rows" by (rule list_update_id)
    have upd: "?rows' = rows[i := ?F (rows ! i)]"
    proof (cases "rows ! i")
      case None
      with same show ?thesis by simp
    next
      case (Some c)
      with same show ?thesis by (cases c) (simp_all add: applyShiftState_row_0)
    qed
    have len: "Suc i \<le> length ?rows'"
      using True by (simp only: upd length_list_update Suc_le_eq)
    have "applyShiftState_rows str this state i rows = applyShiftState_rows str this state (Suc i) ?rows'"
      using True by (subst applyShiftState_rows.simps) (simp only: if_True)
    also have "\<dots> = take (Suc i) ?rows' @ map ?F (drop (Suc i) ?rows')"
      using "1.IH" [OF True len] .
    also have "\<dots> = (take i rows @ [?F (rows ! i)]) @ map ?F (drop (Suc i) rows)"
      using True by (simp only: upd) (simp add: take_Suc_conv_app_nth)
    also have "\<dots> = take i rows @ map ?F (rows ! i # drop (Suc i) rows)"
      by simp
    also have "rows ! i # drop (Suc i) rows = drop i rows"
      using True by (rule Cons_nth_drop_Suc)
    finally show ?thesis .
  qed
qed

lemma applyShiftState_eq:
  "applyShiftState str state this = this\<lparr>VirtualKeyboard.children :=
     map (map_option (\<lambda>c. case c of PlainControl \<Rightarrow> PlainControl
        | Container r \<Rightarrow> Container (r\<lparr>StackPanel.children :=
             map (map_option (applyShiftState_button str this state)) (StackPanel.children r)\<rparr>)))
       (VirtualKeyboard.children this)\<rparr>"
  by (simp add: applyShiftState_def applyShiftState_rows_eq)

lemma applyShiftState_fields:
  "connectedInputText (applyShiftState str state this) = connectedInputText this"
  "onKeyPressObservable (applyShiftState str state this) = onKeyPressObservable this"
  "shiftState (applyShiftState str state this) = shiftState this"
  "shiftButtonColor (applyShiftState str state this) = shiftButtonColor this"
  "defaultButtonColor (applyShiftState str state this) = defaultButtonColor this"
  "selectedShiftThickness (applyShiftState str state this) = selectedShiftThickness this"
  by (simp_all add: applyShiftState_def)

text \<open>
  What idempotence needs of the two string methods: converting twice gives what
  converting once gives, and only the shift glyph is converted to the shift glyph.
\<close>

lemma applyShiftState_button_idem:
  assumes "\<And>s. toUpperCase str (toUpperCase str s) = toUpperCase str s"
    and "\<And>s. toLowerCase str (toLowerCase str s) = toLowerCase str s"
    and "\<And>s. toUpperCase str s = shiftGlyph \<Longrightarrow> s = shiftGlyph"
    and "\<And>s. toLowerCase str s = shiftGlyph \<Longrightarrow> s = shiftGlyph"
  shows "applyShiftState_button str this state (applyShiftState_button str this state b) =
         applyShiftState_button str this state b"
proof (cases "Button.children b")
  case Nil
  then show ?thesis by (simp add: applyShiftState_button_def)
next
  case (Cons tb rest)
  show ?thesis
  proof (cases "0 < state")
    case True
    show ?thesis
    proof (cases "toUpperCase str (text tb) = shiftGlyph")
      case True
      with assms(3) have "text tb = shiftGlyph" by blast
      with Cons \<open>0 < state\<close> True show ?thesis
        by (simp add: applyShiftState_button_def assms(1))
    next
      case False
      with Cons \<open>0 < state\<close> show ?thesis
        by (simp add: applyShiftState_button_def assms(1))
    qed
  next
    case False
    show ?thesis
    proof (cases "toLowerCase str (text tb) = shiftGlyph")
      case True
      with assms(4) have "text tb = shiftGlyph" by blast
      with Cons \<open>\<not> 0 < state\<close> True show ?thesis
        by (simp add: applyShiftState_button_def assms(2))
    next
      case False
      with Cons \<open>\<not> 0 < state\<close> show ?thesis
        by (simp add: applyShiftState_button_def assms(2))
    qed
  qed
qed

lemma applyShiftState_button_cong:
  "shiftButtonColor this' = shiftButtonColor this \<Longrightarrow>
   defaultButtonColor this' = defaultButtonColor this \<Longrightarrow>
   selectedShiftThickness this' = selectedShiftThickness this \<Longrightarrow>
   applyShiftState_button str this' state = applyShiftState_button str this state"
  by (rule ext) (simp add: applyShiftState_button_def split: list.split)

text \<open>
  C5. \<open>applyShiftState\<close> is idempotent: applied twice with the same state, it leaves the
  panel, and so the label, the foreground color and the border thickness of every
  button, as one application does. This holds for every panel and every state, for
  string methods of which converting twice gives what converting once gives and which
  convert only the shift glyph to the shift glyph.
\<close>

theorem applyShiftState_idempotent:
  assumes "\<And>s. toUpperCase str (toUpperCase str s) = toUpperCase str s"
    and "\<And>s. toLowerCase str (toLowerCase str s) = toLowerCase str s"
    and "\<And>s. toUpperCase str s = shiftGlyph \<Longrightarrow> s = shiftGlyph"
    and "\<And>s. toLowerCase str s = shiftGlyph \<Longrightarrow> s = shiftGlyph"
  shows "applyShiftState str state (applyShiftState str state this) = applyShiftState str state this"
proof -
  let ?this' = "applyShiftState str state this"
  let ?row = "\<lambda>c. case c of PlainControl \<Rightarrow> PlainControl
        | Container r \<Rightarrow> Container (r\<lparr>StackPanel.children :=
             map (map_option (applyShiftState_button str this state)) (StackPanel.children r)\<rparr>)"
  have b: "applyShiftState_button str ?this' state = applyShiftState_button str this state"
    by (rule applyShiftState_button_cong) (simp_all add: applyShiftState_fields)
  have i: "applyShiftState_button str this state (applyShiftState_button str this state button) =
           applyShiftState_button str this state button" for button
    using assms by (rule applyShiftState_button_idem)
  have c: "?row \<circ> ?row = ?row"
    by (rule ext) (simp add: option.map_comp comp_def i split: Control.split)
  show ?thesis
    by (subst applyShiftState_eq [of str state ?this'], simp only: b)
       (simp add: applyShiftState_eq option.map_comp c)
qed

section \<open>Rows of keys\<close>

text \<open>The button that \<open>_createKey\<close> returns, property by property.\<close>

lemma createKey_eq:
  "createKey this key propertySet = \<lparr>
     name = key,
     width = propertyOr propertySet KeyPropertySet.width (defaultButtonWidth this),
     height = propertyOr propertySet KeyPropertySet.height (defaultButtonHeight this),
     color = propertyOr propertySet KeyPropertySet.color (defaultButtonColor this),
     background = propertyOr propertySet KeyPropertySet.background (defaultButtonBackground this),
     paddingLeft = propertyOr propertySet KeyPropertySet.paddingLeft (defaultButtonPaddingLeft this),
     paddingRight = propertyOr propertySet KeyPropertySet.paddingRight (defaultButtonPaddingRight this),
     paddingTop = propertyOr propertySet KeyPropertySet.paddingTop (defaultButtonPaddingTop this),
     paddingBottom = propertyOr propertySet KeyPropertySet.paddingBottom (defaultButtonPaddingBottom this),
     thickness = 0,
     Button.isFocusInvisible = True,
     Button.shadowColor = VirtualKeyboard.shadowColor this,
     Button.shadowBlur = VirtualKeyboard.shadowBlur this,
     Button.shadowOffsetX = VirtualKeyboard.shadowOffsetX this,
     Button.shadowOffsetY = VirtualKeyboard.shadowOffsetY this,
     onPointerUpObservable = [key],
     Button.children = [\<lparr>text = key\<rparr>]\<rparr>"
  by (simp add: createKey_def CreateSimpleButton_def)

lemma addKeysRow_loop_eq:
  "i \<le> length keys \<Longrightarrow> addKeysRow_loop this keys propertySets i panel =
     panel\<lparr>StackPanel.children := StackPanel.children panel @
        map (\<lambda>k. Some (createKey this (keys ! k) (rowProperties keys propertySets k))) [i..<length keys]\<rparr>"
proof (induction this keys propertySets i panel rule: addKeysRow_loop.induct)
  case (1 this keys propertySets i panel)
  show ?case
  proof (cases "i < length keys")
    case False
    with "1.prems" show ?thesis by (subst addKeysRow_loop.simps) simp
  next
    case True
    then have u: "[i..<length keys] = i # [Suc i..<length keys]"
      by (rule upt_conv_Cons)
    from True have "Suc i \<le> length keys" by simp
    with "1.IH" True show ?thesis
      by (subst addKeysRow_loop.simps) (simp add: u rowProperties_def Let_def)
  qed
qed

lemma addKeysRow_eq:
  "addKeysRow keys propertySets this = this\<lparr>VirtualKeyboard.children := VirtualKeyboard.children this @
     [Some (Container \<lparr>isVertical = False, StackPanel.isFocusInvisible = True,
        StackPanel.children = map (\<lambda>k. Some (createKey this (keys ! k) (rowProperties keys propertySets k)))
          [0..<length keys]\<rparr>)]\<rparr>"
  by (simp add: addKeysRow_def addKeysRow_loop_eq StackPanel_new_def)

lemma addKeysRow_fields:
  "defaultButtonWidth (addKeysRow keys propertySets this) = defaultButtonWidth this"
  "defaultButtonHeight (addKeysRow keys propertySets this) = defaultButtonHeight this"
  "defaultButtonColor (addKeysRow keys propertySets this) = defaultButtonColor this"
  "shiftButtonColor (addKeysRow keys propertySets this) = shiftButtonColor this"
  "selectedShiftThickness (addKeysRow keys propertySets this) = selectedShiftThickness this"
  "shiftState (addKeysRow keys propertySets this) = shiftState this"
  "onKeyPressObservable (addKeysRow keys propertySets this) = onKeyPressObservable this"
  "connectedInputText (addKeysRow keys propertySets this) = connectedInputText this"
  by (simp_all add: addKeysRow_def Let_def)

lemma addKeysRow_last:
  "rowButtons (last (VirtualKeyboard.children (addKeysRow keys propertySets this))) =
     map (\<lambda>k. Some (createKey this (keys ! k) (rowProperties keys propertySets k))) [0..<length keys]"
  by (simp add: addKeysRow_eq rowButtons_def)

lemma buttonLabel_createKey: "buttonLabel (Some (createKey this key p)) = Some key"
  by (simp add: buttonLabel_def createKey_eq)

lemma addKeysRow_labels:
  "map (map buttonLabel \<circ> rowButtons) (VirtualKeyboard.children (addKeysRow keys propertySets this)) =
   map (map buttonLabel \<circ> rowButtons) (VirtualKeyboard.children this) @ [map Some keys]"
proof -
  have "map (buttonLabel \<circ> (\<lambda>k. Some (createKey this (keys ! k) (rowProperties keys propertySets k))))
          [0..<length keys] = map Some keys"
    by (rule nth_equalityI) (simp_all add: buttonLabel_createKey)
  then show ?thesis
    by (simp add: addKeysRow_eq rowButtons_def)
qed

lemma createKey_fields:
  "\<forall>(bf, sf, df) \<in> set styleFields.
     bf (createKey this (keys ! i) (rowProperties keys propertySets i)) =
       (case suppliedStyle keys propertySets i sf of None \<Rightarrow> df this | Some v \<Rightarrow> v)"
proof (cases "rowProperties keys propertySets i")
  case None
  then have "suppliedStyle keys propertySets i sf = None" for sf
    by (auto simp: rowProperties_def suppliedStyle_def split: option.splits if_splits)
  with None show ?thesis
    by (simp add: styleFields_def createKey_eq propertyOr_def)
next
  case (Some p)
  then have "suppliedStyle keys propertySets i sf =
      (case sf p of None \<Rightarrow> None | Some v \<Rightarrow> if v = [] then None else Some v)" for sf
    by (auto simp: rowProperties_def suppliedStyle_def split: option.splits if_splits)
  with Some show ?thesis
    by (simp add: styleFields_def createKey_eq propertyOr_def split: option.split)
qed

lemma VirtualKeyboard_new_fields:
  "VirtualKeyboard.children (VirtualKeyboard_new super) = []"
  "defaultButtonWidth (VirtualKeyboard_new super) = js ''40px''"
  "defaultButtonHeight (VirtualKeyboard_new super) = js ''40px''"
  "defaultButtonColor (VirtualKeyboard_new super) = js ''#DDD''"
  "shiftButtonColor (VirtualKeyboard_new super) = js ''#7799FF''"
  "selectedShiftThickness (VirtualKeyboard_new super) = 1"
  "shiftState (VirtualKeyboard_new super) = 0"
  "onKeyPressObservable (VirtualKeyboard_new super) = []"
  "connectedInputText (VirtualKeyboard_new super) = None"
  by (simp_all add: VirtualKeyboard_new_def StackPanel_super_def)

lemma pixels_values: "pixels (js ''200px'') = Some 200" "pixels (js ''40px'') = Some 40"
  by (simp_all add: pixels_def js_def)

text \<open>
  C4, as the specification states it: when the style list has the length of the label
  list, the width of a button comes from its style entry. For an entry whose width is
  the empty string, line 72 gives the button the default width of the panel.
\<close>

theorem addKeysRow_style_counterexample:
  "KeyPropertySet.width emptyWidthProperties = Some [] \<and>
   map (map_option Button.width)
     (rowButtons (last (VirtualKeyboard.children
        (addKeysRow [js '' ''] (Some [emptyWidthProperties]) (VirtualKeyboard_new blankKeyboard)))))
     \<noteq> [KeyPropertySet.width emptyWidthProperties] \<and>
   map (map_option Button.width)
     (rowButtons (last (VirtualKeyboard.children
        (addKeysRow [js '' ''] (Some [emptyWidthProperties]) (VirtualKeyboard_new blankKeyboard)))))
     = [Some (js ''40px'')]"
  unfolding addKeysRow_last
  by (simp add: rowProperties_def createKey_eq propertyOr_def emptyWidthProperties_def
        VirtualKeyboard_new_fields js_def)

text \<open>
  C4, amended. \<open>addKeysRow\<close> appends one row, with one button for each label. A property
  of a button is the value of its style entry when the style list is given with the
  length of the label list and the entry sets the field to a string that is not empty;
  it is the default of the panel at the time of the call otherwise: with no style list,
  with a list of another length, and for a field that the entry leaves unset or empty.
\<close>

theorem addKeysRow_row:
  "\<exists>row. addKeysRow keys propertySets this =
           this\<lparr>VirtualKeyboard.children := VirtualKeyboard.children this @ [Some (Container row)]\<rparr> \<and>
         length (StackPanel.children row) = length keys \<and>
         (\<forall>i<length keys. \<exists>button.
            StackPanel.children row ! i = Some button \<and>
            Button.children button = [\<lparr>text = keys ! i\<rparr>] \<and>
            (\<forall>(bf, sf, df) \<in> set styleFields.
               bf button = (case suppliedStyle keys propertySets i sf of None \<Rightarrow> df this | Some v \<Rightarrow> v)))"
proof -
  let ?row = "\<lparr>isVertical = False, StackPanel.isFocusInvisible = True,
        StackPanel.children = map (\<lambda>k. Some (createKey this (keys ! k) (rowProperties keys propertySets k)))
          [0..<length keys]\<rparr>"
  have 1: "addKeysRow keys propertySets this =
           this\<lparr>VirtualKeyboard.children := VirtualKeyboard.children this @ [Some (Container ?row)]\<rparr>"
    by (rule addKeysRow_eq)
  have 2: "length (StackPanel.children ?row) = length keys" by simp
  have 3: "\<exists>button. StackPanel.children ?row ! i = Some button \<and>
            Button.children button = [\<lparr>text = keys ! i\<rparr>] \<and>
            (\<forall>(bf, sf, df) \<in> set styleFields.
               bf button = (case suppliedStyle keys propertySets i sf of None \<Rightarrow> df this | Some v \<Rightarrow> v))"
    if "i < length keys" for i
  proof -
    have "StackPanel.children ?row ! i = Some (createKey this (keys ! i) (rowProperties keys propertySets i))"
      using that by simp
    moreover have "Button.children (createKey this (keys ! i) (rowProperties keys propertySets i))
        = [\<lparr>text = keys ! i\<rparr>]"
      by (simp add: createKey_eq)
    ultimately show ?thesis using createKey_fields by blast
  qed
  from 1 2 3 show ?thesis by blast
qed

theorem addKeysRow_row_witness:
  "\<exists>row button.
     addKeysRow [js '' ''] (Some [spaceBarProperties]) (VirtualKeyboard_new blankKeyboard) =
       (VirtualKeyboard_new blankKeyboard)\<lparr>VirtualKeyboard.children :=
          VirtualKeyboard.children (VirtualKeyboard_new blankKeyboard) @ [Some (Container row)]\<rparr> \<and>
     length (StackPanel.children row) = 1 \<and>
     StackPanel.children row ! 0 = Some button \<and>
     Button.children button = [\<lparr>text = js '' ''\<rparr>] \<and>
     Button.width button = js ''200px'' \<and>
     Button.height button = js ''40px''"
proof -
  let ?keys = "[js '' '']" and ?ps = "Some [spaceBarProperties]"
  let ?kb = "VirtualKeyboard_new blankKeyboard"
  from addKeysRow_row [of ?keys ?ps ?kb]
  obtain row where row:
    "addKeysRow ?keys ?ps ?kb =
       ?kb\<lparr>VirtualKeyboard.children := VirtualKeyboard.children ?kb @ [Some (Container row)]\<rparr>"
    "length (StackPanel.children row) = length ?keys"
    "\<forall>i<length ?keys. \<exists>button.
            StackPanel.children row ! i = Some button \<and>
            Button.children button = [\<lparr>text = ?keys ! i\<rparr>] \<and>
            (\<forall>(bf, sf, df) \<in> set styleFields.
               bf button = (case suppliedStyle ?keys ?ps i sf of None \<Rightarrow> df ?kb | Some v \<Rightarrow> v))"
    by blast
  have "(0::nat) < length ?keys" by simp
  with row(3) obtain button where button:
    "StackPanel.children row ! 0 = Some button"
    "Button.children button = [\<lparr>text = ?keys ! 0\<rparr>]"
    "\<forall>(bf, sf, df) \<in> set styleFields.
               bf button = (case suppliedStyle ?keys ?ps 0 sf of None \<Rightarrow> df ?kb | Some v \<Rightarrow> v)"
    by blast
  have "(Button.width, KeyPropertySet.width, defaultButtonWidth) \<in> set styleFields"
    by (simp add: styleFields_def)
  with button(3) have w: "Button.width button = js ''200px''"
    by (auto simp: suppliedStyle_def spaceBarProperties_def js_def)
  have "(Button.height, KeyPropertySet.height, defaultButtonHeight) \<in> set styleFields"
    by (simp add: styleFields_def)
  with button(3) have h: "Button.height button = js ''40px''"
    by (auto simp: suppliedStyle_def spaceBarProperties_def VirtualKeyboard_new_fields)
  from row(1,2) button(1,2) w h show ?thesis by auto
qed

section \<open>The default layout\<close>

lemma layout_labels:
  "map (map buttonLabel \<circ> rowButtons) (VirtualKeyboard.children (CreateDefaultLayout super)) =
    [map Some [js ''1'', js ''2'', js ''3'', js ''4'', js ''5'', js ''6'', js ''7'', js ''8'',
               js ''9'', js ''0'', backspaceGlyph],
     map Some [js ''q'', js ''w'', js ''e'', js ''r'', js ''t'', js ''y'', js ''u'', js ''i'',
               js ''o'', js ''p''],
     map Some [js ''a'', js ''s'', js ''d'', js ''f'', js ''g'', js ''h'', js ''j'', js ''k'',
               js ''l'', js '';'', [0x27], enterGlyph],
     map Some [shiftGlyph, js ''z'', js ''x'', js ''c'', js ''v'', js ''b'', js ''n'', js ''m'',
               js '','', js ''.'', js ''/''],
     map Some [js '' '']]"
  unfolding CreateDefaultLayout_def addKeysRow_labels VirtualKeyboard_new_fields
  by simp

lemma layout_space:
  "map (map_option Button.width) (rowButtons (last (VirtualKeyboard.children (CreateDefaultLayout super))))
     = [Some (js ''200px'')]"
  unfolding CreateDefaultLayout_def addKeysRow_last
  by (simp add: rowProperties_def createKey_eq propertyOr_def spaceBarProperties_def js_def)

lemma layout_default_width: "defaultButtonWidth (CreateDefaultLayout super) = js ''40px''"
  unfolding CreateDefaultLayout_def addKeysRow_fields VirtualKeyboard_new_fields
  by (rule refl)

text \<open>
  C6, as the specification states it: the key of the space bar has double the default
  button width. It is 200 pixels wide and the default is 40 pixels.
\<close>

theorem CreateDefaultLayout_double_counterexample:
  "map (map_option (pixels \<circ> Button.width))
     (rowButtons (last (VirtualKeyboard.children (CreateDefaultLayout blankKeyboard))))
   \<noteq> [Some (map_option ((*) 2) (pixels (defaultButtonWidth (CreateDefaultLayout blankKeyboard))))]"
proof -
  have "map (map_option (pixels \<circ> Button.width))
          (rowButtons (last (VirtualKeyboard.children (CreateDefaultLayout blankKeyboard))))
        = map (map_option pixels) (map (map_option Button.width)
          (rowButtons (last (VirtualKeyboard.children (CreateDefaultLayout blankKeyboard)))))"
    by (simp add: option.map_comp)
  then show ?thesis
    by (simp only: layout_space layout_default_width) (simp add: pixels_values)
qed

text \<open>
  C6, amended. \<open>CreateDefaultLayout\<close> returns a panel of five rows with 11, 10, 12, 11 and
  1 keys: the digits and the backspace glyph, the top letters, the home letters and the
  enter glyph, the shift glyph and the bottom letters, and the space bar, whose style
  override makes it \<open>200px\<close> wide, five times the default button width of \<open>40px\<close>.
\<close>

theorem CreateDefaultLayout_rows:
  "map (length \<circ> rowButtons) (VirtualKeyboard.children (CreateDefaultLayout super)) = [11, 10, 12, 11, 1] \<and>
   map (map buttonLabel \<circ> rowButtons) (VirtualKeyboard.children (CreateDefaultLayout super)) =
    [map Some [js ''1'', js ''2'', js ''3'', js ''4'', js ''5'', js ''6'', js ''7'', js ''8'',
               js ''9'', js ''0'', backspaceGlyph],
     map Some [js ''q'', js ''w'', js ''e'', js ''r'', js ''t'', js ''y'', js ''u'', js ''i'',
               js ''o'', js ''p''],
     map Some [js ''a'', js ''s'', js ''d'', js ''f'', js ''g'', js ''h'', js ''j'', js ''k'',
               js ''l'', js '';'', [0x27], enterGlyph],
     map Some [shiftGlyph, js ''z'', js ''x'', js ''c'', js ''v'', js ''b'', js ''n'', js ''m'',
               js '','', js ''.'', js ''/''],
     map Some [js '' '']] \<and>
   map (map_option Button.width)
     (rowButtons (last (VirtualKeyboard.children (CreateDefaultLayout super)))) = [Some (js ''200px'')] \<and>
   defaultButtonWidth (CreateDefaultLayout super) = js ''40px'' \<and>
   map (map_option (pixels \<circ> Button.width))
     (rowButtons (last (VirtualKeyboard.children (CreateDefaultLayout super))))
     = [Some (map_option ((*) 5) (pixels (defaultButtonWidth (CreateDefaultLayout super))))]"
proof -
  have "map (length \<circ> rowButtons) (VirtualKeyboard.children (CreateDefaultLayout super))
        = map length (map (map buttonLabel \<circ> rowButtons) (VirtualKeyboard.children (CreateDefaultLayout super)))"
    by simp
  then have counts:
    "map (length \<circ> rowButtons) (VirtualKeyboard.children (CreateDefaultLayout super)) = [11, 10, 12, 11, 1]"
    by (simp only: layout_labels) simp
  have "map (map_option (pixels \<circ> Button.width))
          (rowButtons (last (VirtualKeyboard.children (CreateDefaultLayout super))))
        = map (map_option pixels) (map (map_option Button.width)
          (rowButtons (last (VirtualKeyboard.children (CreateDefaultLayout super)))))"
    by (simp add: option.map_comp)
  then have wide: "map (map_option (pixels \<circ> Button.width))
     (rowButtons (last (VirtualKeyboard.children (CreateDefaultLayout super))))
     = [Some (map_option ((*) 5) (pixels (defaultButtonWidth (CreateDefaultLayout super))))]"
    by (simp only: layout_space layout_default_width) (simp add: pixels_values)
  from counts layout_labels layout_space layout_default_width wide show ?thesis
    by (intro conjI)
qed

section \<open>The effect of applyShiftState\<close>

lemma exampleKeyboard_children:
  "VirtualKeyboard.children exampleKeyboard =
     [Some (Container \<lparr>isVertical = False, StackPanel.isFocusInvisible = True,
        StackPanel.children =
          [Some (createKey (VirtualKeyboard_new blankKeyboard) shiftGlyph None),
           Some (createKey (VirtualKeyboard_new blankKeyboard) (js ''a'') None)]\<rparr>)]"
  by (simp add: exampleKeyboard_def addKeysRow_eq VirtualKeyboard_new_fields rowProperties_def)

lemma exampleKeyboard_fields:
  "shiftButtonColor exampleKeyboard = js ''#7799FF''"
  "defaultButtonColor exampleKeyboard = js ''#DDD''"
  "selectedShiftThickness exampleKeyboard = 1"
  "shiftState exampleKeyboard = 0"
  "onKeyPressObservable exampleKeyboard = []"
  "connectedInputText exampleKeyboard = None"
  by (simp_all add: exampleKeyboard_def addKeysRow_fields VirtualKeyboard_new_fields)

lemma shiftKey_after:
  "hd (rowButtons (hd (VirtualKeyboard.children (applyShiftState str state exampleKeyboard)))) =
     Some (applyShiftState_button str exampleKeyboard state
             (createKey (VirtualKeyboard_new blankKeyboard) shiftGlyph None))"
  by (simp add: applyShiftState_eq exampleKeyboard_children rowButtons_def)

lemma shiftKey_children:
  "Button.children (createKey this shiftGlyph p) = [\<lparr>text = shiftGlyph\<rparr>]"
  by (simp add: createKey_eq)

text \<open>
  What \<open>applyShiftState\<close> does to a button that has a label, whatever the state: the
  label is converted, and the color and the thickness change for the shift key only. A
  panel with no rows is left as it is.
\<close>

lemma applyShiftState_effect:
  "(VirtualKeyboard.children this = [] \<longrightarrow> applyShiftState str state this = this) \<and>
   length (VirtualKeyboard.children (applyShiftState str state this)) = length (VirtualKeyboard.children this) \<and>
   (i < length (VirtualKeyboard.children this) \<and>
    VirtualKeyboard.children this ! i = Some (Container row) \<and>
    j < length (StackPanel.children row) \<and>
    StackPanel.children row ! j = Some button \<and>
    Button.children button = tb # rest \<longrightarrow>
    (\<exists>row' button'.
       VirtualKeyboard.children (applyShiftState str state this) ! i = Some (Container row') \<and>
       length (StackPanel.children row') = length (StackPanel.children row) \<and>
       StackPanel.children row' ! j = Some button' \<and>
       Button.children button' =
         tb\<lparr>text := (if state > 0 then toUpperCase str (text tb) else toLowerCase str (text tb))\<rparr> # rest \<and>
       Button.color button' =
         (if text tb = shiftGlyph
          then (if state \<noteq> 0 then shiftButtonColor this else defaultButtonColor this)
          else Button.color button) \<and>
       thickness button' =
         (if text tb = shiftGlyph
          then (if state > 1 then selectedShiftThickness this else 0)
          else thickness button)))"
proof (intro conjI impI)
  assume "VirtualKeyboard.children this = []"
  then have "this\<lparr>VirtualKeyboard.children := []\<rparr> = this"
    by (cases this) simp
  with \<open>VirtualKeyboard.children this = []\<close> show "applyShiftState str state this = this"
    by (simp add: applyShiftState_eq)
next
  show "length (VirtualKeyboard.children (applyShiftState str state this)) = length (VirtualKeyboard.children this)"
    by (simp add: applyShiftState_eq)
next
  assume a: "i < length (VirtualKeyboard.children this) \<and>
    VirtualKeyboard.children this ! i = Some (Container row) \<and>
    j < length (StackPanel.children row) \<and>
    StackPanel.children row ! j = Some button \<and>
    Button.children button = tb # rest"
  let ?row' = "row\<lparr>StackPanel.children :=
             map (map_option (applyShiftState_button str this state)) (StackPanel.children row)\<rparr>"
  let ?button' = "applyShiftState_button str this state button"
  from a have 1: "VirtualKeyboard.children (applyShiftState str state this) ! i = Some (Container ?row')"
    by (simp add: applyShiftState_eq)
  have 2: "length (StackPanel.children ?row') = length (StackPanel.children row)"
    by simp
  from a have 3: "StackPanel.children ?row' ! j = Some ?button'"
    by simp
  from a have 4: "Button.children ?button' =
         tb\<lparr>text := (if state > 0 then toUpperCase str (text tb) else toLowerCase str (text tb))\<rparr> # rest"
    by (simp add: applyShiftState_button_def)
  from a have 5: "Button.color ?button' =
         (if text tb = shiftGlyph
          then (if state \<noteq> 0 then shiftButtonColor this else defaultButtonColor this)
          else Button.color button)"
    by (simp add: applyShiftState_button_def)
  from a have 6: "thickness ?button' =
         (if text tb = shiftGlyph
          then (if state > 1 then selectedShiftThickness this else 0)
          else thickness button)"
    by (simp add: applyShiftState_button_def)
  from 1 2 3 4 5 6 show "\<exists>row' button'.
       VirtualKeyboard.children (applyShiftState str state this) ! i = Some (Container row') \<and>
       length (StackPanel.children row') = length (StackPanel.children row) \<and>
       StackPanel.children row' ! j = Some button' \<and>
       Button.children button' =
         tb\<lparr>text := (if state > 0 then toUpperCase str (text tb) else toLowerCase str (text tb))\<rparr> # rest \<and>
       Button.color button' =
         (if text tb = shiftGlyph
          then (if state \<noteq> 0 then shiftButtonColor this else defaultButtonColor this)
          else Button.color button) \<and>
       thickness button' =
         (if text tb = shiftGlyph
          then (if state > 1 then selectedShiftThickness this else 0)
          else thickness button)"
    by blast
qed

lemma a_not_shift: "js ''a'' \<noteq> shiftGlyph"
  by (simp add: js_def shiftGlyph_def)

lemma exampleKeyboard_shifted:
  "map rowButtons (VirtualKeyboard.children (applyShiftState basicLatin 2 exampleKeyboard)) =
     [[Some (applyShiftState_button basicLatin exampleKeyboard 2
               (createKey (VirtualKeyboard_new blankKeyboard) shiftGlyph None)),
       Some (applyShiftState_button basicLatin exampleKeyboard 2
               (createKey (VirtualKeyboard_new blankKeyboard) (js ''a'') None))]]"
  by (simp add: applyShiftState_eq exampleKeyboard_children rowButtons_def)

theorem applyShiftState_idempotent_witness:
  "applyShiftState basicLatin 2 (applyShiftState basicLatin 2 exampleKeyboard) =
     applyShiftState basicLatin 2 exampleKeyboard \<and>
   map (map buttonLabel) (map rowButtons
     (VirtualKeyboard.children (applyShiftState basicLatin 2 exampleKeyboard))) =
     [[Some shiftGlyph, Some (js ''A'')]] \<and>
   map (map buttonLabel) (map rowButtons
     (VirtualKeyboard.children (applyShiftState basicLatin 2 (applyShiftState basicLatin 2 exampleKeyboard)))) =
     [[Some shiftGlyph, Some (js ''A'')]]"
proof -
  have once: "map (map buttonLabel) (map rowButtons
     (VirtualKeyboard.children (applyShiftState basicLatin 2 exampleKeyboard))) =
     [[Some shiftGlyph, Some (js ''A'')]]"
    by (simp add: exampleKeyboard_shifted buttonLabel_def applyShiftState_button_def createKey_eq
          basicLatin_values)
  have twice: "applyShiftState basicLatin 2 (applyShiftState basicLatin 2 exampleKeyboard) =
     applyShiftState basicLatin 2 exampleKeyboard"
    using basicLatin_idem basicLatin_glyph
    by (rule applyShiftState_idempotent)
  from once twice show ?thesis by simp
qed

text \<open>
  C8. The claim gives the shift key the default button color unless the state is greater
  than 0. At state -1, on the keyboard with the shift key and the key \<open>a\<close>,
  \<open>applyShiftState\<close> colors the shift key with \<open>shiftButtonColor\<close>, because line 145
  tests that the state is not 0; lines 146 and 149, which compare the state with 1 and
  with 0, give the key no border and leave the labels in lower case.
\<close>

theorem applyShiftState_negative_state:
  "map (map buttonLabel \<circ> rowButtons) (VirtualKeyboard.children exampleKeyboard) =
     [[Some shiftGlyph, Some (js ''a'')]] \<and>
   shiftButtonColor exampleKeyboard = js ''#7799FF'' \<and>
   defaultButtonColor exampleKeyboard = js ''#DDD'' \<and>
   map (map (map_option Button.color) \<circ> rowButtons)
     (VirtualKeyboard.children (applyShiftState basicLatin (- 1) exampleKeyboard)) =
     [[Some (js ''#7799FF''), Some (js ''#DDD'')]] \<and>
   map (map (map_option thickness) \<circ> rowButtons)
     (VirtualKeyboard.children (applyShiftState basicLatin (- 1) exampleKeyboard)) =
     [[Some 0, Some 0]] \<and>
   map (map buttonLabel \<circ> rowButtons)
     (VirtualKeyboard.children (applyShiftState basicLatin (- 1) exampleKeyboard)) =
     [[Some shiftGlyph, Some (js ''a'')]]"
proof -
  let ?K = "VirtualKeyboard_new blankKeyboard"
  let ?shift = "applyShiftState_button basicLatin exampleKeyboard (- 1) (createKey ?K shiftGlyph None)"
  let ?a = "applyShiftState_button basicLatin exampleKeyboard (- 1) (createKey ?K (js ''a'') None)"
  have rows: "map rowButtons (VirtualKeyboard.children (applyShiftState basicLatin (- 1) exampleKeyboard))
      = [[Some ?shift, Some ?a]]"
    by (simp add: applyShiftState_eq exampleKeyboard_children rowButtons_def)
  have shift: "Button.color ?shift = js ''#7799FF''" "thickness ?shift = 0"
    "Button.children ?shift = [\<lparr>text = shiftGlyph\<rparr>]"
    by (simp_all add: applyShiftState_button_def createKey_eq exampleKeyboard_fields basicLatin_values)
  have a: "Button.color ?a = js ''#DDD''" "thickness ?a = 0"
    "Button.children ?a = [\<lparr>text = js ''a''\<rparr>]"
    by (simp_all add: applyShiftState_button_def createKey_eq propertyOr_def a_not_shift
          VirtualKeyboard_new_fields basicLatin_values)
  have before: "map (map buttonLabel \<circ> rowButtons) (VirtualKeyboard.children exampleKeyboard) =
     [[Some shiftGlyph, Some (js ''a'')]]"
    by (simp add: exampleKeyboard_children rowButtons_def buttonLabel_createKey)
  have split: "map (map f \<circ> rowButtons) rows = map (map f) (map rowButtons rows)" for f rows
    by simp
  from before rows shift a show ?thesis
    by (simp only: split) (simp add: exampleKeyboard_fields buttonLabel_def)
qed

section \<open>Routing of key presses\<close>

lemma glyphs_distinct:
  "shiftGlyph \<noteq> backspaceGlyph" "shiftGlyph \<noteq> enterGlyph" "backspaceGlyph \<noteq> enterGlyph"
  by (simp_all add: shiftGlyph_def backspaceGlyph_def enterGlyph_def)

lemma onKeyPress_detached:
  "connectedInputText (keyboard w) = None \<Longrightarrow> onKeyPress str key w = Inr w"
  by (simp add: onKeyPress_def)

lemma onKeyPress_shift:
  assumes "connectedInputText (keyboard w) = Some input"
  shows "onKeyPress str shiftGlyph w =
           Inr (w\<lparr>keyboard :=
                  applyShiftState str (if shiftState (keyboard w) + 1 > 2 then 0 else shiftState (keyboard w) + 1)
                    ((keyboard w)\<lparr>shiftState :=
                       (if shiftState (keyboard w) + 1 > 2 then 0 else shiftState (keyboard w) + 1)\<rparr>)\<rparr>)"
  using assms by (simp add: onKeyPress_def Let_def)

lemma onKeyPress_command:
  assumes "connectedInputText (keyboard w) = Some input"
  shows "onKeyPress str backspaceGlyph w =
           Inr (w\<lparr>inputs := (inputs w)(input := (inputs w input)\<lparr>
                  processKeyCalls := processKeyCalls (inputs w input) @ [(8, None)]\<rparr>)\<rparr>)"
    and "onKeyPress str enterGlyph w =
           Inr (w\<lparr>inputs := (inputs w)(input := (inputs w input)\<lparr>
                  processKeyCalls := processKeyCalls (inputs w input) @ [(13, None)]\<rparr>)\<rparr>)"
  using assms glyphs_distinct by (simp_all add: onKeyPress_def processKey_def)

lemma onKeyPress_literal:
  assumes "connectedInputText (keyboard w) = Some input"
    and "key \<noteq> shiftGlyph" "key \<noteq> backspaceGlyph" "key \<noteq> enterGlyph"
  shows "onKeyPress str key w =
           Inr (w\<lparr>inputs := (inputs w)(input := (inputs w input)\<lparr>
                    processKeyCalls := processKeyCalls (inputs w input) @
                      [(- 1, Some (if shiftState (keyboard w) \<noteq> 0 then toUpperCase str key else key))]\<rparr>),
                  keyboard := (if shiftState (keyboard w) = 1
                               then applyShiftState str 0 ((keyboard w)\<lparr>shiftState := 0\<rparr>)
                               else keyboard w)\<rparr>)"
  using assms by (simp add: onKeyPress_def processKey_def)

text \<open>
  The shift state after the routing closure has run, by the key and the state before.
\<close>

lemma onKeyPress_invariant:
  "\<exists>w'. onKeyPress str key w = Inr w' \<and>
        connectedInputText (keyboard w') = connectedInputText (keyboard w) \<and>
        onKeyPressObservable (keyboard w') = onKeyPressObservable (keyboard w) \<and>
        (shiftState (keyboard w) \<in> {0, 1, 2} \<longrightarrow>
           shiftState (keyboard w') \<in> {0, 1, 2} \<and>
           shiftState (keyboard w') =
             (if connectedInputText (keyboard w) = None then shiftState (keyboard w)
              else if key = shiftGlyph then (shiftState (keyboard w) + 1) mod 3
              else if key = backspaceGlyph \<or> key = enterGlyph then shiftState (keyboard w)
              else if shiftState (keyboard w) = 1 then 0
              else shiftState (keyboard w)))"
proof (cases "connectedInputText (keyboard w)")
  case None
  then show ?thesis by (simp add: onKeyPress_detached)
next
  case (Some input)
  consider "key = shiftGlyph" | "key = backspaceGlyph" | "key = enterGlyph"
    | "key \<noteq> shiftGlyph" "key \<noteq> backspaceGlyph" "key \<noteq> enterGlyph"
    by blast
  then show ?thesis
  proof cases
    case 1
    with Some show ?thesis
      by (auto simp: onKeyPress_shift applyShiftState_fields)
  next
    case 2
    with Some glyphs_distinct show ?thesis by (auto simp: onKeyPress_command)
  next
    case 3
    with Some glyphs_distinct show ?thesis by (auto simp: onKeyPress_command)
  next
    case 4
    with Some show ?thesis
      by (auto simp: onKeyPress_literal applyShiftState_fields)
  qed
qed

lemma notifyObservers_invariant:
  "\<exists>w'. notifyObservers str obs key w = Inr w' \<and>
        connectedInputText (keyboard w') = connectedInputText (keyboard w) \<and>
        onKeyPressObservable (keyboard w') = onKeyPressObservable (keyboard w) \<and>
        (shiftState (keyboard w) \<in> {0, 1, 2} \<longrightarrow> shiftState (keyboard w') \<in> {0, 1, 2})"
proof (induction obs arbitrary: w)
  case Nil
  show ?case by simp
next
  case (Cons ob obs)
  obtain w1 where w1: "onKeyPress str key w = Inr w1"
    "connectedInputText (keyboard w1) = connectedInputText (keyboard w)"
    "onKeyPressObservable (keyboard w1) = onKeyPressObservable (keyboard w)"
    "shiftState (keyboard w) \<in> {0, 1, 2} \<longrightarrow> shiftState (keyboard w1) \<in> {0, 1, 2}"
    using onKeyPress_invariant by blast
  obtain w2 where w2: "notifyObservers str obs key w1 = Inr w2"
    "connectedInputText (keyboard w2) = connectedInputText (keyboard w1)"
    "onKeyPressObservable (keyboard w2) = onKeyPressObservable (keyboard w1)"
    "shiftState (keyboard w1) \<in> {0, 1, 2} \<longrightarrow> shiftState (keyboard w2) \<in> {0, 1, 2}"
    using Cons.IH by blast
  from w1 w2 show ?case by auto
qed

lemma keyPress_invariant:
  "\<exists>w'. keyPress str key w = Inr w' \<and>
        connectedInputText (keyboard w') = connectedInputText (keyboard w) \<and>
        onKeyPressObservable (keyboard w') = onKeyPressObservable (keyboard w) \<and>
        (shiftState (keyboard w) \<in> {0, 1, 2} \<longrightarrow> shiftState (keyboard w') \<in> {0, 1, 2})"
  unfolding keyPress_def by (rule notifyObservers_invariant)

lemma keyPresses_invariant:
  "\<exists>w'. keyPresses str keys w = Inr w' \<and>
        connectedInputText (keyboard w') = connectedInputText (keyboard w) \<and>
        onKeyPressObservable (keyboard w') = onKeyPressObservable (keyboard w) \<and>
        (shiftState (keyboard w) \<in> {0, 1, 2} \<longrightarrow> shiftState (keyboard w') \<in> {0, 1, 2})"
proof (induction keys arbitrary: w)
  case Nil
  show ?case by simp
next
  case (Cons key keys)
  obtain w1 where w1: "keyPress str key w = Inr w1"
    "connectedInputText (keyboard w1) = connectedInputText (keyboard w)"
    "onKeyPressObservable (keyboard w1) = onKeyPressObservable (keyboard w)"
    "shiftState (keyboard w) \<in> {0, 1, 2} \<longrightarrow> shiftState (keyboard w1) \<in> {0, 1, 2}"
    using keyPress_invariant by blast
  obtain w2 where w2: "keyPresses str keys w1 = Inr w2"
    "connectedInputText (keyboard w2) = connectedInputText (keyboard w1)"
    "onKeyPressObservable (keyboard w2) = onKeyPressObservable (keyboard w1)"
    "shiftState (keyboard w1) \<in> {0, 1, 2} \<longrightarrow> shiftState (keyboard w2) \<in> {0, 1, 2}"
    using Cons.IH by blast
  from w1 w2 show ?case by auto
qed

lemma keyPress_connected:
  assumes "connectedOnce w"
  shows "keyPress str key w = onKeyPress str key w"
proof -
  from assms obtain ob where "onKeyPressObservable (keyboard w) = [ob]"
    by (auto simp: connectedOnce_def length_Suc_conv)
  then show ?thesis
    by (simp add: keyPress_def split: sum.split)
qed

lemma connected_kept:
  assumes "connectedOnce w"
    and "connectedInputText (keyboard w') = connectedInputText (keyboard w)"
    and "onKeyPressObservable (keyboard w') = onKeyPressObservable (keyboard w)"
  shows "connectedOnce w'"
  using assms by (simp add: connectedOnce_def)

text \<open>
  One press of the shift key on a panel with one routing closure whose state is 0, 1
  or 2.
\<close>

lemma shift_step:
  assumes "connectedOnce w" and "shiftState (keyboard w) \<in> {0, 1, 2}"
  shows "\<exists>w'. keyPress str shiftGlyph w = Inr w' \<and> connectedOnce w' \<and>
           connectedInputText (keyboard w') = connectedInputText (keyboard w) \<and>
           shiftState (keyboard w') = (shiftState (keyboard w) + 1) mod 3 \<and>
           shiftState (keyboard w') \<in> {0, 1, 2} \<and>
           keyboard w' = applyShiftState str (shiftState (keyboard w'))
                           ((keyboard w)\<lparr>shiftState := shiftState (keyboard w')\<rparr>) \<and>
           inputs w' = inputs w"
proof -
  from assms(1) obtain input where input: "connectedInputText (keyboard w) = Some input"
    by (auto simp: connectedOnce_def)
  let ?s = "if shiftState (keyboard w) + 1 > 2 then 0 else shiftState (keyboard w) + 1"
  let ?w' = "w\<lparr>keyboard := applyShiftState str ?s ((keyboard w)\<lparr>shiftState := ?s\<rparr>)\<rparr>"
  have 1: "keyPress str shiftGlyph w = Inr ?w'"
    using assms(1) input by (simp only: keyPress_connected onKeyPress_shift)
  have 2: "connectedOnce ?w'"
    using assms(1) by (simp add: connectedOnce_def applyShiftState_fields)
  have 3: "shiftState (keyboard ?w') = ?s"
    by (simp add: applyShiftState_fields)
  have 4: "?s = (shiftState (keyboard w) + 1) mod 3" "?s \<in> {0, 1, 2}"
    using assms(2) by auto
  have 5: "keyboard ?w' = applyShiftState str (shiftState (keyboard ?w'))
                           ((keyboard w)\<lparr>shiftState := shiftState (keyboard ?w')\<rparr>)"
    by (simp only: 3) simp
  have 6: "inputs ?w' = inputs w" by simp
  have 7: "connectedInputText (keyboard ?w') = connectedInputText (keyboard w)"
    by (simp add: applyShiftState_fields)
  from 1 2 3 4 5 6 7 show ?thesis by metis
qed

section \<open>Connecting and disconnecting\<close>

lemma newObserver_fresh: "newObserver observers \<notin> set observers"
proof -
  have "ob \<le> foldr max observers 0" if "ob \<in> set observers" for ob
    using that by (induction observers) auto
  then show ?thesis by (fastforce simp: newObserver_def)
qed

lemma removeObserver_new:
  "removeObserver (Some (newObserver observers)) (observers @ [newObserver observers]) = observers"
  using newObserver_fresh [of observers] by (simp add: removeObserver_def remove1_append)

lemma connect_fields:
  "connectedInputText (keyboard (connect input w)) = Some input"
  "onKeyPressObservable (keyboard (connect input w)) =
     onKeyPressObservable (keyboard w) @ [newObserver (onKeyPressObservable (keyboard w))]"
  "onKeyPressObserver (keyboard (connect input w)) = Some (newObserver (onKeyPressObservable (keyboard w)))"
  "onFocusObserver (keyboard (connect input w)) = Some (newObserver (onFocusObservable (inputs w input)))"
  "onBlurObserver (keyboard (connect input w)) = Some (newObserver (onBlurObservable (inputs w input)))"
  "onFocusObservable (inputs (connect input w) input) =
     onFocusObservable (inputs w input) @ [newObserver (onFocusObservable (inputs w input))]"
  "onBlurObservable (inputs (connect input w) input) =
     onBlurObservable (inputs w input) @ [newObserver (onBlurObservable (inputs w input))]"
  "processKeyCalls (inputs (connect input w) input) = processKeyCalls (inputs w input)"
  "shiftState (keyboard (connect input w)) = shiftState (keyboard w)"
  "VirtualKeyboard.children (keyboard (connect input w)) = VirtualKeyboard.children (keyboard w)"
  "isVisible (keyboard (connect input w)) = False"
  by (simp_all add: connect_def Let_def)

lemma connect_connected:
  "onKeyPressObservable (keyboard w) = [] \<Longrightarrow> connectedOnce (connect input w)"
  by (simp add: connectedOnce_def connect_fields)

lemma disconnect_detached:
  "connectedInputText (keyboard w) = None \<Longrightarrow> disconnect w = Inr w"
  by (simp add: disconnect_def)

lemma disconnect_attached:
  assumes "connectedInputText (keyboard w) = Some input"
  shows "disconnect w =
     Inr (w\<lparr>inputs := (inputs w)(input := (inputs w input)\<lparr>
              onFocusObservable :=
                removeObserver (onFocusObserver (keyboard w)) (onFocusObservable (inputs w input)),
              onBlurObservable :=
                removeObserver (onBlurObserver (keyboard w)) (onBlurObservable (inputs w input))\<rparr>),
            keyboard := (keyboard w)\<lparr>
              onKeyPressObservable :=
                removeObserver (onKeyPressObserver (keyboard w)) (onKeyPressObservable (keyboard w)),
              connectedInputText := None\<rparr>\<rparr>)"
  using assms by (simp add: disconnect_def Let_def)

lemma exampleWorld_fields:
  "shiftState (keyboard exampleWorld) = 0"
  "onKeyPressObservable (keyboard exampleWorld) = []"
  "connectedInputText (keyboard exampleWorld) = None"
  "processKeyCalls (inputs exampleWorld input) = []"
  "onFocusObservable (inputs exampleWorld input) = []"
  "onBlurObservable (inputs exampleWorld input) = []"
  by (simp_all add: exampleWorld_def exampleKeyboard_fields)

lemma connectedWorld_fields:
  "connectedOnce connectedWorld"
  "connectedInputText (keyboard connectedWorld) = Some 0"
  "shiftState (keyboard connectedWorld) = 0"
  "processKeyCalls (inputs connectedWorld 0) = []"
  by (simp_all add: connectedWorld_def connect_connected connect_fields exampleWorld_fields)

lemma leakedWorld_fields:
  "connectedInputText (keyboard leakedWorld) = None"
  "onKeyPressObservable (keyboard leakedWorld) = [1]"
proof -
  let ?w = "connect 1 (connect 0 exampleWorld)"
  have c: "connectedInputText (keyboard ?w) = Some 1"
    by (simp add: connect_fields)
  show "connectedInputText (keyboard leakedWorld) = None"
    unfolding leakedWorld_def disconnect_attached [OF c] by simp
  show "onKeyPressObservable (keyboard leakedWorld) = [1]"
    unfolding leakedWorld_def disconnect_attached [OF c]
    by (simp add: connect_fields exampleWorld_fields newObserver_def removeObserver_def)
qed

lemma twiceConnectedWorld_fields:
  "connectedInputText (keyboard twiceConnectedWorld) = Some 0"
  "onKeyPressObservable (keyboard twiceConnectedWorld) = [1, 2]"
  "shiftState (keyboard twiceConnectedWorld) = 0"
  "processKeyCalls (inputs twiceConnectedWorld 0) = []"
  "\<not> connectedOnce twiceConnectedWorld"
  by (simp_all add: twiceConnectedWorld_def connectedOnce_def connect_fields exampleWorld_fields
        newObserver_def connect_def Let_def)

section \<open>One run of the routing closure\<close>

text \<open>
  What one run of the closure leaves, for the shift glyph, for a command glyph and for
  a literal key, on a panel with an attached input.
\<close>

lemma closure_shift:
  assumes "connectedInputText (keyboard w) = Some input"
  shows "\<exists>w'. onKeyPress str shiftGlyph w = Inr w' \<and>
           connectedInputText (keyboard w') = Some input \<and>
           onKeyPressObservable (keyboard w') = onKeyPressObservable (keyboard w) \<and>
           inputs w' = inputs w \<and>
           shiftState (keyboard w') =
             (if shiftState (keyboard w) + 1 > 2 then 0 else shiftState (keyboard w) + 1)"
  using assms by (simp add: onKeyPress_shift [OF assms] applyShiftState_fields)

lemma closure_command:
  assumes "connectedInputText (keyboard w) = Some input"
    and "(key, code) \<in> {(backspaceGlyph, 8), (enterGlyph, 13)}"
  shows "\<exists>w'. onKeyPress str key w = Inr w' \<and>
           processKeyCalls (inputs w' input) = processKeyCalls (inputs w input) @ [(code, None)] \<and>
           (\<forall>other. other \<noteq> input \<longrightarrow> inputs w' other = inputs w other) \<and>
           keyboard w' = keyboard w"
proof -
  let ?w' = "w\<lparr>inputs := (inputs w)(input := (inputs w input)\<lparr>
                  processKeyCalls := processKeyCalls (inputs w input) @ [(code, None)]\<rparr>)\<rparr>"
  from assms(2) have "onKeyPress str key w = Inr ?w'"
    using onKeyPress_command [OF assms(1)] by auto
  moreover have "processKeyCalls (inputs ?w' input) = processKeyCalls (inputs w input) @ [(code, None)]"
    by simp
  moreover have "\<forall>other. other \<noteq> input \<longrightarrow> inputs ?w' other = inputs w other"
    by simp
  moreover have "keyboard ?w' = keyboard w" by simp
  ultimately show ?thesis by metis
qed

lemma closure_literal:
  assumes "connectedInputText (keyboard w) = Some input"
    and "key \<noteq> shiftGlyph" "key \<noteq> backspaceGlyph" "key \<noteq> enterGlyph"
  shows "\<exists>w'. onKeyPress str key w = Inr w' \<and>
           connectedInputText (keyboard w') = Some input \<and>
           onKeyPressObservable (keyboard w') = onKeyPressObservable (keyboard w) \<and>
           processKeyCalls (inputs w' input) = processKeyCalls (inputs w input) @
             [(- 1, Some (if shiftState (keyboard w) \<noteq> 0 then toUpperCase str key else key))] \<and>
           shiftState (keyboard w') = (if shiftState (keyboard w) = 1 then 0 else shiftState (keyboard w))"
  using assms(1) by (simp add: onKeyPress_literal [OF assms] applyShiftState_fields)

text \<open>
  A command glyph on a panel with any number of routing closures: each closure sends
  the command once.
\<close>

lemma notifyObservers_command:
  assumes "connectedInputText (keyboard w) = Some input"
    and "(key, code) \<in> {(backspaceGlyph, 8), (enterGlyph, 13)}"
  shows "\<exists>w'. notifyObservers str obs key w = Inr w' \<and>
           processKeyCalls (inputs w' input) =
             processKeyCalls (inputs w input) @ replicate (length obs) (code, None) \<and>
           (\<forall>other. other \<noteq> input \<longrightarrow> inputs w' other = inputs w other) \<and>
           keyboard w' = keyboard w"
  using assms(1)
proof (induction obs arbitrary: w)
  case Nil
  show ?case by simp
next
  case (Cons ob obs)
  from closure_command [OF Cons.prems assms(2), of str] obtain w1 where w1:
    "onKeyPress str key w = Inr w1"
    "processKeyCalls (inputs w1 input) = processKeyCalls (inputs w input) @ [(code, None)]"
    "\<forall>other. other \<noteq> input \<longrightarrow> inputs w1 other = inputs w other"
    "keyboard w1 = keyboard w"
    by blast
  from Cons.prems w1(4) have "connectedInputText (keyboard w1) = Some input" by simp
  from Cons.IH [OF this] obtain w2 where w2:
    "notifyObservers str obs key w1 = Inr w2"
    "processKeyCalls (inputs w2 input) =
       processKeyCalls (inputs w1 input) @ replicate (length obs) (code, None)"
    "\<forall>other. other \<noteq> input \<longrightarrow> inputs w2 other = inputs w1 other"
    "keyboard w2 = keyboard w1"
    by blast
  have "notifyObservers str (ob # obs) key w = Inr w2"
    using w1(1) w2(1) by simp
  moreover have "processKeyCalls (inputs w2 input) =
      processKeyCalls (inputs w input) @ replicate (length (ob # obs)) (code, None)"
    using w1(2) w2(2) by simp
  moreover have "\<forall>other. other \<noteq> input \<longrightarrow> inputs w2 other = inputs w other"
    using w1(3) w2(3) by simp
  moreover have "keyboard w2 = keyboard w"
    using w1(4) w2(4) by simp
  ultimately show ?case by blast
qed

section \<open>The shift key\<close>

text \<open>
  C1, as the specification states it: on a connected panel a press of the shift glyph
  takes the state \<open>s\<close> to \<open>(s + 1) mod 3\<close>. After \<open>connect\<close> to one input and \<open>connect\<close>
  to another, with no \<open>disconnect\<close> between, two routing closures are registered and
  one press takes the state from 0 to 2.
\<close>

theorem shift_key_press_counterexample:
  "connectedInputText (keyboard twiceConnectedWorld) = Some 0 \<and>
   shiftState (keyboard twiceConnectedWorld) = 0 \<and>
   stateAfter basicLatin [shiftGlyph] twiceConnectedWorld = Some 2 \<and>
   stateAfter basicLatin [shiftGlyph] twiceConnectedWorld
     \<noteq> Some ((shiftState (keyboard twiceConnectedWorld) + 1) mod 3)"
proof -
  note f = twiceConnectedWorld_fields
  from closure_shift [OF f(1), of basicLatin] obtain w1 where w1:
    "onKeyPress basicLatin shiftGlyph twiceConnectedWorld = Inr w1"
    "connectedInputText (keyboard w1) = Some 0"
    "shiftState (keyboard w1) =
       (if shiftState (keyboard twiceConnectedWorld) + 1 > 2 then 0
        else shiftState (keyboard twiceConnectedWorld) + 1)"
    by blast
  from closure_shift [OF w1(2), of basicLatin] obtain w2 where w2:
    "onKeyPress basicLatin shiftGlyph w1 = Inr w2"
    "shiftState (keyboard w2) =
       (if shiftState (keyboard w1) + 1 > 2 then 0 else shiftState (keyboard w1) + 1)"
    by blast
  have s2: "shiftState (keyboard w2) = 2"
    using w1(3) w2(2) f(3) by simp
  have "keyPresses basicLatin [shiftGlyph] twiceConnectedWorld = Inr w2"
    using w1(1) w2(1) f(2) by (simp add: keyPress_def)
  then have "stateAfter basicLatin [shiftGlyph] twiceConnectedWorld = Some 2"
    by (simp add: stateAfter_def s2)
  then show ?thesis using f by simp
qed

text \<open>
  C1, amended. On a panel attached to an input with exactly one routing closure
  registered, as after a single \<open>connect\<close>, that starts in shift state 0: after every
  sequence of key-press events, a press of the shift glyph succeeds, sets \<open>shiftState\<close>
  to \<open>(s + 1) mod 3\<close>, leaves the panel as \<open>applyShiftState\<close> with the new state makes it
  and sends nothing to the text inputs; three presses bring the state back.
\<close>

theorem shift_key_press:
  assumes "connectedOnce w" and "shiftState (keyboard w) = 0"
  shows "\<exists>w1 w2 w3.
           keyPresses str keys w = Inr w1 \<and>
           keyPress str shiftGlyph w1 = Inr w2 \<and>
           shiftState (keyboard w2) = (shiftState (keyboard w1) + 1) mod 3 \<and>
           keyboard w2 = applyShiftState str (shiftState (keyboard w2))
                           ((keyboard w1)\<lparr>shiftState := shiftState (keyboard w2)\<rparr>) \<and>
           inputs w2 = inputs w1 \<and>
           keyPresses str [shiftGlyph, shiftGlyph, shiftGlyph] w1 = Inr w3 \<and>
           shiftState (keyboard w3) = shiftState (keyboard w1)"
proof -
  from assms(2) have "shiftState (keyboard w) \<in> {0, 1, 2}" by simp
  with keyPresses_invariant [of str keys w] obtain w1 where w1:
    "keyPresses str keys w = Inr w1"
    "connectedInputText (keyboard w1) = connectedInputText (keyboard w)"
    "onKeyPressObservable (keyboard w1) = onKeyPressObservable (keyboard w)"
    "shiftState (keyboard w1) \<in> {0, 1, 2}"
    by blast
  from assms(1) w1(2,3) have c1: "connectedOnce w1" by (rule connected_kept)
  from shift_step [OF c1 w1(4), of str] obtain w2 where w2:
    "keyPress str shiftGlyph w1 = Inr w2" "connectedOnce w2"
    "shiftState (keyboard w2) = (shiftState (keyboard w1) + 1) mod 3"
    "shiftState (keyboard w2) \<in> {0, 1, 2}"
    "keyboard w2 = applyShiftState str (shiftState (keyboard w2))
                           ((keyboard w1)\<lparr>shiftState := shiftState (keyboard w2)\<rparr>)"
    "inputs w2 = inputs w1"
    by blast
  from shift_step [OF w2(2) w2(4), of str] obtain v where v:
    "keyPress str shiftGlyph w2 = Inr v" "connectedOnce v"
    "shiftState (keyboard v) = (shiftState (keyboard w2) + 1) mod 3"
    "shiftState (keyboard v) \<in> {0, 1, 2}"
    by blast
  from shift_step [OF v(2) v(4), of str] obtain w3 where w3:
    "keyPress str shiftGlyph v = Inr w3"
    "shiftState (keyboard w3) = (shiftState (keyboard v) + 1) mod 3"
    by blast
  have three: "keyPresses str [shiftGlyph, shiftGlyph, shiftGlyph] w1 = Inr w3"
    using w2(1) v(1) w3(1) by simp
  have again: "shiftState (keyboard w3) = shiftState (keyboard w1)"
    using w1(4) w2(3) v(3) w3(2) by auto
  from w1(1) w2(1,3,5,6) three again show ?thesis by blast
qed

theorem shift_key_press_witness:
  "connectedOnce connectedWorld \<and> shiftState (keyboard connectedWorld) = 0 \<and>
   (\<exists>w1 w2 w3.
      keyPresses basicLatin [js ''a'', shiftGlyph] connectedWorld = Inr w1 \<and>
      keyPress basicLatin shiftGlyph w1 = Inr w2 \<and>
      shiftState (keyboard w2) = (shiftState (keyboard w1) + 1) mod 3 \<and>
      keyboard w2 = applyShiftState basicLatin (shiftState (keyboard w2))
                      ((keyboard w1)\<lparr>shiftState := shiftState (keyboard w2)\<rparr>) \<and>
      inputs w2 = inputs w1 \<and>
      keyPresses basicLatin [shiftGlyph, shiftGlyph, shiftGlyph] w1 = Inr w3 \<and>
      shiftState (keyboard w3) = shiftState (keyboard w1))"
  using shift_key_press [OF connectedWorld_fields(1) connectedWorld_fields(3),
          of basicLatin "[js ''a'', shiftGlyph]"]
    connectedWorld_fields(1,3)
  by blast

section \<open>Literal keys\<close>

lemma literal_a: "js ''a'' \<notin> {shiftGlyph, backspaceGlyph, enterGlyph}"
  by (simp add: js_def shiftGlyph_def backspaceGlyph_def enterGlyph_def)

text \<open>
  C2, as the specification states it: in shift state 1 the key \<open>a\<close> pressed on a
  connected panel forwards the upper-cased character. On the panel with two routing
  closures, two presses of the shift glyph lead to state 1, and the key \<open>a\<close> then sends
  \<open>A\<close> and, from the second closure, which runs after the reset, \<open>a\<close>.
\<close>

theorem literal_key_press_counterexample:
  "connectedInputText (keyboard twiceConnectedWorld) = Some 0 \<and>
   stateAfter basicLatin [shiftGlyph, shiftGlyph] twiceConnectedWorld = Some 1 \<and>
   callsAfter basicLatin [shiftGlyph, shiftGlyph] twiceConnectedWorld 0 = Some [] \<and>
   callsAfter basicLatin [shiftGlyph, shiftGlyph, js ''a''] twiceConnectedWorld 0 =
     Some [(- 1, Some (js ''A'')), (- 1, Some (js ''a''))] \<and>
   callsAfter basicLatin [shiftGlyph, shiftGlyph, js ''a''] twiceConnectedWorld 0 \<noteq>
     Some [(- 1, Some (toUpperCase basicLatin (js ''a'')))]"
proof -
  note f = twiceConnectedWorld_fields
  let ?next = "\<lambda>s :: int. if s + 1 > 2 then 0 else s + 1"
  from literal_a have key: "js ''a'' \<noteq> shiftGlyph" "js ''a'' \<noteq> backspaceGlyph" "js ''a'' \<noteq> enterGlyph"
    by simp_all
  from closure_shift [OF f(1), of basicLatin] obtain w1 where w1:
    "onKeyPress basicLatin shiftGlyph twiceConnectedWorld = Inr w1"
    "connectedInputText (keyboard w1) = Some 0"
    "onKeyPressObservable (keyboard w1) = onKeyPressObservable (keyboard twiceConnectedWorld)"
    "inputs w1 = inputs twiceConnectedWorld"
    "shiftState (keyboard w1) = ?next (shiftState (keyboard twiceConnectedWorld))"
    by blast
  from closure_shift [OF w1(2), of basicLatin] obtain w2 where w2:
    "onKeyPress basicLatin shiftGlyph w1 = Inr w2"
    "connectedInputText (keyboard w2) = Some 0"
    "onKeyPressObservable (keyboard w2) = onKeyPressObservable (keyboard w1)"
    "inputs w2 = inputs w1"
    "shiftState (keyboard w2) = ?next (shiftState (keyboard w1))"
    by blast
  from closure_shift [OF w2(2), of basicLatin] obtain w3 where w3:
    "onKeyPress basicLatin shiftGlyph w2 = Inr w3"
    "connectedInputText (keyboard w3) = Some 0"
    "onKeyPressObservable (keyboard w3) = onKeyPressObservable (keyboard w2)"
    "inputs w3 = inputs w2"
    "shiftState (keyboard w3) = ?next (shiftState (keyboard w2))"
    by blast
  from closure_shift [OF w3(2), of basicLatin] obtain w4 where w4:
    "onKeyPress basicLatin shiftGlyph w3 = Inr w4"
    "connectedInputText (keyboard w4) = Some 0"
    "onKeyPressObservable (keyboard w4) = onKeyPressObservable (keyboard w3)"
    "inputs w4 = inputs w3"
    "shiftState (keyboard w4) = ?next (shiftState (keyboard w3))"
    by blast
  from closure_literal [OF w4(2) key, of basicLatin] obtain w5 where w5:
    "onKeyPress basicLatin (js ''a'') w4 = Inr w5"
    "connectedInputText (keyboard w5) = Some 0"
    "processKeyCalls (inputs w5 0) = processKeyCalls (inputs w4 0) @
       [(- 1, Some (if shiftState (keyboard w4) \<noteq> 0 then toUpperCase basicLatin (js ''a'') else js ''a''))]"
    "shiftState (keyboard w5) = (if shiftState (keyboard w4) = 1 then 0 else shiftState (keyboard w4))"
    by blast
  from closure_literal [OF w5(2) key, of basicLatin] obtain w6 where w6:
    "onKeyPress basicLatin (js ''a'') w5 = Inr w6"
    "processKeyCalls (inputs w6 0) = processKeyCalls (inputs w5 0) @
       [(- 1, Some (if shiftState (keyboard w5) \<noteq> 0 then toUpperCase basicLatin (js ''a'') else js ''a''))]"
    by blast
  have obs: "onKeyPressObservable (keyboard w2) = [1, 2]" "onKeyPressObservable (keyboard w4) = [1, 2]"
    using w1(3) w2(3) w3(3) w4(3) f(2) by simp_all
  have st: "shiftState (keyboard w4) = 1" "shiftState (keyboard w5) = 0"
    using w1(5) w2(5) w3(5) w4(5) w5(4) f(3) by simp_all
  have c4: "processKeyCalls (inputs w4 0) = []"
    using w1(4) w2(4) w3(4) w4(4) f(4) by simp
  have c6: "processKeyCalls (inputs w6 0) = [(- 1, Some (js ''A'')), (- 1, Some (js ''a''))]"
    using w5(3) w6(2) st c4 by (simp add: basicLatin_values)
  have shifts: "keyPresses basicLatin [shiftGlyph, shiftGlyph] twiceConnectedWorld = Inr w4"
    using w1(1) w2(1) w3(1) w4(1) f(2) obs by (simp add: keyPress_def)
  have all: "keyPresses basicLatin [shiftGlyph, shiftGlyph, js ''a''] twiceConnectedWorld = Inr w6"
    using w1(1) w2(1) w3(1) w4(1) w5(1) w6(1) f(2) obs by (simp add: keyPress_def)
  have "js ''A'' \<noteq> js ''a''" by (simp add: js_def)
  with shifts all st c4 c6 f(1) show ?thesis
    by (simp add: stateAfter_def callsAfter_def basicLatin_values)
qed

text \<open>
  C2, amended. A key other than the shift, backspace and enter glyphs, pressed on a
  panel attached to an input with exactly one routing closure registered, in shift
  state 0, 1 or 2: the attached input receives the character once, upper-cased by
  \<open>toUpperCase\<close> if the state is greater than 0 and as it is otherwise, and no input
  receives anything else; from state 1 the state goes back to 0 and \<open>applyShiftState\<close> is
  applied with 0; in states 0 and 2 the panel stays as it is.
\<close>

theorem literal_key_press:
  assumes "connectedOnce w" and "connectedInputText (keyboard w) = Some input"
    and "key \<notin> {shiftGlyph, backspaceGlyph, enterGlyph}"
    and "shiftState (keyboard w) \<in> {0, 1, 2}"
  shows "\<exists>w'. keyPress str key w = Inr w' \<and>
           processKeyCalls (inputs w' input) = processKeyCalls (inputs w input) @
             [(- 1, Some (if shiftState (keyboard w) > 0 then toUpperCase str key else key))] \<and>
           (\<forall>other. other \<noteq> input \<longrightarrow> inputs w' other = inputs w other) \<and>
           keyboard w' = (if shiftState (keyboard w) = 1
                          then applyShiftState str 0 ((keyboard w)\<lparr>shiftState := 0\<rparr>)
                          else keyboard w) \<and>
           shiftState (keyboard w') = (if shiftState (keyboard w) = 1 then 0 else shiftState (keyboard w))"
proof -
  let ?w' = "w\<lparr>inputs := (inputs w)(input := (inputs w input)\<lparr>
                    processKeyCalls := processKeyCalls (inputs w input) @
                      [(- 1, Some (if shiftState (keyboard w) \<noteq> 0 then toUpperCase str key else key))]\<rparr>),
                  keyboard := (if shiftState (keyboard w) = 1
                               then applyShiftState str 0 ((keyboard w)\<lparr>shiftState := 0\<rparr>)
                               else keyboard w)\<rparr>"
  from assms(3) have key: "key \<noteq> shiftGlyph" "key \<noteq> backspaceGlyph" "key \<noteq> enterGlyph"
    by simp_all
  have 1: "keyPress str key w = Inr ?w'"
    using assms(1) by (simp only: keyPress_connected onKeyPress_literal [OF assms(2) key])
  from assms(4) have pos: "(shiftState (keyboard w) \<noteq> 0) = (shiftState (keyboard w) > 0)"
    by auto
  have 2: "processKeyCalls (inputs ?w' input) = processKeyCalls (inputs w input) @
             [(- 1, Some (if shiftState (keyboard w) > 0 then toUpperCase str key else key))]"
    by (simp add: pos)
  have 3: "\<forall>other. other \<noteq> input \<longrightarrow> inputs ?w' other = inputs w other"
    by simp
  have 4: "keyboard ?w' = (if shiftState (keyboard w) = 1
                          then applyShiftState str 0 ((keyboard w)\<lparr>shiftState := 0\<rparr>)
                          else keyboard w)"
    by simp
  have 5: "shiftState (keyboard ?w') = (if shiftState (keyboard w) = 1 then 0 else shiftState (keyboard w))"
    by (simp add: applyShiftState_fields)
  from 1 2 3 4 5 show ?thesis by blast
qed

text \<open>
  The example panel with one routing closure after one press and after two presses of
  the shift glyph: states 1 and 2, and nothing sent yet.
\<close>

lemma shifted_worlds:
  "connectedOnce (worldAfter basicLatin [shiftGlyph] connectedWorld)"
  "connectedInputText (keyboard (worldAfter basicLatin [shiftGlyph] connectedWorld)) = Some 0"
  "shiftState (keyboard (worldAfter basicLatin [shiftGlyph] connectedWorld)) = 1"
  "processKeyCalls (inputs (worldAfter basicLatin [shiftGlyph] connectedWorld) 0) = []"
  "connectedOnce (worldAfter basicLatin [shiftGlyph, shiftGlyph] connectedWorld)"
  "connectedInputText (keyboard (worldAfter basicLatin [shiftGlyph, shiftGlyph] connectedWorld)) = Some 0"
  "shiftState (keyboard (worldAfter basicLatin [shiftGlyph, shiftGlyph] connectedWorld)) = 2"
  "processKeyCalls (inputs (worldAfter basicLatin [shiftGlyph, shiftGlyph] connectedWorld) 0) = []"
proof -
  note f = connectedWorld_fields
  have s0: "shiftState (keyboard connectedWorld) \<in> {0, 1, 2}" by (simp add: f)
  from shift_step [OF f(1) s0, of basicLatin] obtain w1 where w1:
    "keyPress basicLatin shiftGlyph connectedWorld = Inr w1" "connectedOnce w1"
    "connectedInputText (keyboard w1) = Some 0"
    "shiftState (keyboard w1) = 1" "shiftState (keyboard w1) \<in> {0, 1, 2}"
    "inputs w1 = inputs connectedWorld"
    by (auto simp: f)
  from shift_step [OF w1(2) w1(5), of basicLatin] obtain w2 where w2:
    "keyPress basicLatin shiftGlyph w1 = Inr w2" "connectedOnce w2"
    "connectedInputText (keyboard w2) = Some 0"
    "shiftState (keyboard w2) = 2"
    "inputs w2 = inputs connectedWorld"
    by (auto simp: w1)
  have a1: "worldAfter basicLatin [shiftGlyph] connectedWorld = w1"
    using w1(1) by (simp add: worldAfter_def)
  have a2: "worldAfter basicLatin [shiftGlyph, shiftGlyph] connectedWorld = w2"
    using w1(1) w2(1) by (simp add: worldAfter_def)
  show "connectedOnce (worldAfter basicLatin [shiftGlyph] connectedWorld)"
    "connectedInputText (keyboard (worldAfter basicLatin [shiftGlyph] connectedWorld)) = Some 0"
    "shiftState (keyboard (worldAfter basicLatin [shiftGlyph] connectedWorld)) = 1"
    "processKeyCalls (inputs (worldAfter basicLatin [shiftGlyph] connectedWorld) 0) = []"
    by (simp_all add: a1 w1 f)
  show "connectedOnce (worldAfter basicLatin [shiftGlyph, shiftGlyph] connectedWorld)"
    "connectedInputText (keyboard (worldAfter basicLatin [shiftGlyph, shiftGlyph] connectedWorld)) = Some 0"
    "shiftState (keyboard (worldAfter basicLatin [shiftGlyph, shiftGlyph] connectedWorld)) = 2"
    "processKeyCalls (inputs (worldAfter basicLatin [shiftGlyph, shiftGlyph] connectedWorld) 0) = []"
    by (simp_all add: a2 w2 f)
qed

theorem literal_key_press_witness:
  "connectedOnce (worldAfter basicLatin [shiftGlyph] connectedWorld) \<and>
   shiftState (keyboard (worldAfter basicLatin [shiftGlyph] connectedWorld)) = 1 \<and>
   js ''a'' \<notin> {shiftGlyph, backspaceGlyph, enterGlyph} \<and>
   (\<exists>w'. keyPress basicLatin (js ''a'') (worldAfter basicLatin [shiftGlyph] connectedWorld) = Inr w' \<and>
         processKeyCalls (inputs w' 0) = [(- 1, Some (js ''A''))] \<and>
         keyboard w' = applyShiftState basicLatin 0
           ((keyboard (worldAfter basicLatin [shiftGlyph] connectedWorld))\<lparr>shiftState := 0\<rparr>) \<and>
         shiftState (keyboard w') = 0) \<and>
   connectedOnce (worldAfter basicLatin [shiftGlyph, shiftGlyph] connectedWorld) \<and>
   shiftState (keyboard (worldAfter basicLatin [shiftGlyph, shiftGlyph] connectedWorld)) = 2 \<and>
   (\<exists>w'. keyPress basicLatin (js ''a'') (worldAfter basicLatin [shiftGlyph, shiftGlyph] connectedWorld) = Inr w' \<and>
         processKeyCalls (inputs w' 0) = [(- 1, Some (js ''A''))] \<and>
         keyboard w' = keyboard (worldAfter basicLatin [shiftGlyph, shiftGlyph] connectedWorld) \<and>
         shiftState (keyboard w') = 2)"
proof -
  let ?W1 = "worldAfter basicLatin [shiftGlyph] connectedWorld"
  let ?W2 = "worldAfter basicLatin [shiftGlyph, shiftGlyph] connectedWorld"
  note f = shifted_worlds
  have s1: "shiftState (keyboard ?W1) \<in> {0, 1, 2}" and s2: "shiftState (keyboard ?W2) \<in> {0, 1, 2}"
    by (simp_all add: f)
  from literal_key_press [OF f(1) f(2) literal_a s1, of basicLatin]
  obtain v1 where v1: "keyPress basicLatin (js ''a'') ?W1 = Inr v1"
    "processKeyCalls (inputs v1 0) = processKeyCalls (inputs ?W1 0) @
       [(- 1, Some (if shiftState (keyboard ?W1) > 0 then toUpperCase basicLatin (js ''a'') else js ''a''))]"
    "keyboard v1 = (if shiftState (keyboard ?W1) = 1
                    then applyShiftState basicLatin 0 ((keyboard ?W1)\<lparr>shiftState := 0\<rparr>)
                    else keyboard ?W1)"
    "shiftState (keyboard v1) = (if shiftState (keyboard ?W1) = 1 then 0 else shiftState (keyboard ?W1))"
    by blast
  then have 1: "keyPress basicLatin (js ''a'') ?W1 = Inr v1 \<and>
         processKeyCalls (inputs v1 0) = [(- 1, Some (js ''A''))] \<and>
         keyboard v1 = applyShiftState basicLatin 0 ((keyboard ?W1)\<lparr>shiftState := 0\<rparr>) \<and>
         shiftState (keyboard v1) = 0"
    by (simp add: f basicLatin_values)
  from literal_key_press [OF f(5) f(6) literal_a s2, of basicLatin]
  obtain v2 where v2: "keyPress basicLatin (js ''a'') ?W2 = Inr v2"
    "processKeyCalls (inputs v2 0) = processKeyCalls (inputs ?W2 0) @
       [(- 1, Some (if shiftState (keyboard ?W2) > 0 then toUpperCase basicLatin (js ''a'') else js ''a''))]"
    "keyboard v2 = (if shiftState (keyboard ?W2) = 1
                    then applyShiftState basicLatin 0 ((keyboard ?W2)\<lparr>shiftState := 0\<rparr>)
                    else keyboard ?W2)"
    "shiftState (keyboard v2) = (if shiftState (keyboard ?W2) = 1 then 0 else shiftState (keyboard ?W2))"
    by blast
  then have 2: "keyPress basicLatin (js ''a'') ?W2 = Inr v2 \<and>
         processKeyCalls (inputs v2 0) = [(- 1, Some (js ''A''))] \<and>
         keyboard v2 = keyboard ?W2 \<and>
         shiftState (keyboard v2) = 2"
    by (simp add: f basicLatin_values)
  from 1 2 f(1,3,5,7) literal_a show ?thesis by blast
qed

section \<open>Backspace and enter\<close>

text \<open>
  C3, as the specification states it: a press of the backspace glyph on a connected
  panel sends the one command. On the panel with two routing closures the attached
  input receives the command twice.
\<close>

theorem command_key_press_counterexample:
  "connectedInputText (keyboard twiceConnectedWorld) = Some 0 \<and>
   processKeyCalls (inputs twiceConnectedWorld 0) = [] \<and>
   callsAfter basicLatin [backspaceGlyph] twiceConnectedWorld 0 = Some [(8, None), (8, None)] \<and>
   callsAfter basicLatin [backspaceGlyph] twiceConnectedWorld 0 \<noteq> Some [(8, None)]"
proof -
  note f = twiceConnectedWorld_fields
  have m: "(backspaceGlyph, 8 :: int) \<in> {(backspaceGlyph, 8), (enterGlyph, 13)}" by simp
  from notifyObservers_command
         [OF f(1) m, of basicLatin "onKeyPressObservable (keyboard twiceConnectedWorld)"]
  obtain w' where w':
    "notifyObservers basicLatin (onKeyPressObservable (keyboard twiceConnectedWorld))
       backspaceGlyph twiceConnectedWorld = Inr w'"
    "processKeyCalls (inputs w' 0) = processKeyCalls (inputs twiceConnectedWorld 0) @
       replicate (length (onKeyPressObservable (keyboard twiceConnectedWorld))) (8, None)"
    by blast
  from w'(2) have calls: "processKeyCalls (inputs w' 0) = [(8, None), (8, None)]"
    using f(2,4) by simp
  from w'(1) have "keyPresses basicLatin [backspaceGlyph] twiceConnectedWorld = Inr w'"
    by (simp add: keyPress_def)
  then have "callsAfter basicLatin [backspaceGlyph] twiceConnectedWorld 0 = Some [(8, None), (8, None)]"
    by (simp add: callsAfter_def calls)
  then show ?thesis using f by simp
qed

text \<open>
  C3, amended. The backspace glyph and the enter glyph, pressed on a panel with an
  attached input: every registered routing closure, one after a single \<open>connect\<close>,
  sends the command once, key code 8 for backspace and 13 for enter, with no character;
  nothing else reaches a text input, and the panel, and so \<open>shiftState\<close>, stays as it
  is.
\<close>

theorem command_key_press:
  assumes "connectedInputText (keyboard w) = Some input"
    and "(key, code) \<in> {(backspaceGlyph, 8), (enterGlyph, 13)}"
  shows "\<exists>w'. keyPress str key w = Inr w' \<and>
           processKeyCalls (inputs w' input) = processKeyCalls (inputs w input) @
             replicate (length (onKeyPressObservable (keyboard w))) (code, None) \<and>
           (\<forall>other. other \<noteq> input \<longrightarrow> inputs w' other = inputs w other) \<and>
           keyboard w' = keyboard w \<and>
           shiftState (keyboard w') = shiftState (keyboard w)"
proof -
  from notifyObservers_command [OF assms, of str "onKeyPressObservable (keyboard w)"]
  obtain w' where "keyPress str key w = Inr w'"
    "processKeyCalls (inputs w' input) = processKeyCalls (inputs w input) @
       replicate (length (onKeyPressObservable (keyboard w))) (code, None)"
    "\<forall>other. other \<noteq> input \<longrightarrow> inputs w' other = inputs w other"
    "keyboard w' = keyboard w"
    by (auto simp: keyPress_def)
  then show ?thesis by auto
qed

theorem command_key_press_witness:
  "connectedInputText (keyboard connectedWorld) = Some 0 \<and>
   (backspaceGlyph, 8 :: int) \<in> {(backspaceGlyph, 8), (enterGlyph, 13)} \<and>
   (enterGlyph, 13 :: int) \<in> {(backspaceGlyph, 8), (enterGlyph, 13)} \<and>
   (\<exists>w'. keyPress basicLatin backspaceGlyph connectedWorld = Inr w' \<and>
         processKeyCalls (inputs w' 0) = [(8, None)] \<and>
         keyboard w' = keyboard connectedWorld) \<and>
   (\<exists>w'. keyPress basicLatin enterGlyph connectedWorld = Inr w' \<and>
         processKeyCalls (inputs w' 0) = [(13, None)] \<and>
         keyboard w' = keyboard connectedWorld)"
proof -
  note f = connectedWorld_fields
  have m: "(backspaceGlyph, 8 :: int) \<in> {(backspaceGlyph, 8), (enterGlyph, 13)}"
    and n: "(enterGlyph, 13 :: int) \<in> {(backspaceGlyph, 8), (enterGlyph, 13)}"
    by simp_all
  have one: "length (onKeyPressObservable (keyboard connectedWorld)) = 1"
    using f(1) by (simp add: connectedOnce_def)
  from command_key_press [OF f(2) m, of basicLatin]
  obtain v1 where v1: "keyPress basicLatin backspaceGlyph connectedWorld = Inr v1"
    "processKeyCalls (inputs v1 0) = processKeyCalls (inputs connectedWorld 0) @
       replicate (length (onKeyPressObservable (keyboard connectedWorld))) (8, None)"
    "keyboard v1 = keyboard connectedWorld"
    by blast
  then have 1: "keyPress basicLatin backspaceGlyph connectedWorld = Inr v1 \<and>
         processKeyCalls (inputs v1 0) = [(8, None)] \<and>
         keyboard v1 = keyboard connectedWorld"
    by (simp add: f one)
  from command_key_press [OF f(2) n, of basicLatin]
  obtain v2 where v2: "keyPress basicLatin enterGlyph connectedWorld = Inr v2"
    "processKeyCalls (inputs v2 0) = processKeyCalls (inputs connectedWorld 0) @
       replicate (length (onKeyPressObservable (keyboard connectedWorld))) (13, None)"
    "keyboard v2 = keyboard connectedWorld"
    by blast
  then have 2: "keyPress basicLatin enterGlyph connectedWorld = Inr v2 \<and>
         processKeyCalls (inputs v2 0) = [(13, None)] \<and>
         keyboard v2 = keyboard connectedWorld"
    by (simp add: f one)
  from 1 2 f(2) m n show ?thesis by blast
qed

section \<open>The range of the shift state\<close>

text \<open>
  C9. \<open>shiftState\<close> is 0 in a new keyboard. From a state in \<open>{0, 1, 2}\<close> every sequence
  of key-press events succeeds and ends in a state in \<open>{0, 1, 2}\<close>; one run of the
  routing closure takes the state \<open>s\<close> to \<open>(s + 1) mod 3\<close> for the shift glyph, from 1 to
  0 for a literal key, and leaves it in every other case.
\<close>

theorem shiftState_range:
  "shiftState (VirtualKeyboard_new super) = 0 \<and>
   (shiftState (keyboard w) \<in> {0, 1, 2} \<longrightarrow>
      (\<exists>w'. keyPresses str keys w = Inr w' \<and> shiftState (keyboard w') \<in> {0, 1, 2})) \<and>
   (shiftState (keyboard w) \<in> {0, 1, 2} \<longrightarrow>
      (\<exists>w'. onKeyPress str key w = Inr w' \<and>
         shiftState (keyboard w') \<in> {0, 1, 2} \<and>
         shiftState (keyboard w') =
           (if connectedInputText (keyboard w) = None then shiftState (keyboard w)
            else if key = shiftGlyph then (shiftState (keyboard w) + 1) mod 3
            else if key = backspaceGlyph \<or> key = enterGlyph then shiftState (keyboard w)
            else if shiftState (keyboard w) = 1 then 0
            else shiftState (keyboard w))))"
proof (intro conjI)
  show "shiftState (VirtualKeyboard_new super) = 0"
    by (simp add: VirtualKeyboard_new_fields)
  show "shiftState (keyboard w) \<in> {0, 1, 2} \<longrightarrow>
      (\<exists>w'. keyPresses str keys w = Inr w' \<and> shiftState (keyboard w') \<in> {0, 1, 2})"
    using keyPresses_invariant [of str keys w] by blast
  show "shiftState (keyboard w) \<in> {0, 1, 2} \<longrightarrow>
      (\<exists>w'. onKeyPress str key w = Inr w' \<and>
         shiftState (keyboard w') \<in> {0, 1, 2} \<and>
         shiftState (keyboard w') =
           (if connectedInputText (keyboard w) = None then shiftState (keyboard w)
            else if key = shiftGlyph then (shiftState (keyboard w) + 1) mod 3
            else if key = backspaceGlyph \<or> key = enterGlyph then shiftState (keyboard w)
            else if shiftState (keyboard w) = 1 then 0
            else shiftState (keyboard w)))"
    using onKeyPress_invariant [of str key w] by blast
qed

theorem shiftState_range_witness:
  "shiftState (keyboard connectedWorld) \<in> {0, 1, 2} \<and>
   (\<exists>w'. keyPresses basicLatin [shiftGlyph, js ''a'', shiftGlyph, shiftGlyph] connectedWorld = Inr w' \<and>
         shiftState (keyboard w') \<in> {0, 1, 2}) \<and>
   (\<exists>w'. onKeyPress basicLatin shiftGlyph connectedWorld = Inr w' \<and> shiftState (keyboard w') = 1)"
proof -
  have s: "shiftState (keyboard connectedWorld) \<in> {0, 1, 2}"
    by (simp add: connectedWorld_fields)
  from shiftState_range [where super = blankKeyboard and w = connectedWorld and str = basicLatin
         and keys = "[shiftGlyph, js ''a'', shiftGlyph, shiftGlyph]" and key = shiftGlyph] s
  have "(\<exists>w'. keyPresses basicLatin [shiftGlyph, js ''a'', shiftGlyph, shiftGlyph] connectedWorld = Inr w' \<and>
         shiftState (keyboard w') \<in> {0, 1, 2})"
    and "\<exists>w'. onKeyPress basicLatin shiftGlyph connectedWorld = Inr w' \<and>
         shiftState (keyboard w') =
           (if connectedInputText (keyboard connectedWorld) = None then shiftState (keyboard connectedWorld)
            else if shiftGlyph = shiftGlyph then (shiftState (keyboard connectedWorld) + 1) mod 3
            else if shiftGlyph = backspaceGlyph \<or> shiftGlyph = enterGlyph then shiftState (keyboard connectedWorld)
            else if shiftState (keyboard connectedWorld) = 1 then 0
            else shiftState (keyboard connectedWorld))"
    by blast+
  then show ?thesis using s by (simp add: connectedWorld_fields)
qed

section \<open>No attached input\<close>

text \<open>
  C10. When no input is attached, the routing closure does nothing, whatever the key,
  the shift glyph included: the state, the panel and the text inputs are as before, and
  so they are after a key-press event, which runs every registered closure.
\<close>

theorem detached_key_press:
  assumes "connectedInputText (keyboard w) = None"
  shows "onKeyPress str key w = Inr w \<and> keyPress str key w = Inr w"
proof -
  have "notifyObservers str obs key w = Inr w" for obs
    using assms by (induction obs) (simp_all add: onKeyPress_detached)
  with assms show ?thesis
    by (simp add: onKeyPress_detached keyPress_def)
qed

theorem detached_key_press_witness:
  "connectedInputText (keyboard leakedWorld) = None \<and>
   onKeyPressObservable (keyboard leakedWorld) = [1] \<and>
   onKeyPress basicLatin shiftGlyph leakedWorld = Inr leakedWorld \<and>
   keyPress basicLatin shiftGlyph leakedWorld = Inr leakedWorld"
  using detached_key_press [OF leakedWorld_fields(1), of basicLatin shiftGlyph] leakedWorld_fields
  by simp

section \<open>Disconnecting\<close>

text \<open>
  C7. \<open>disconnect\<close> never throws. With no input attached it changes nothing. Otherwise
  it takes the three observers that \<open>connect\<close> stored out of the focus and blur events of
  the attached input and out of the key-press event of the panel, and clears the
  reference to the input, so that a second \<open>disconnect\<close> changes nothing and the panel
  has no attached input. After \<open>connect\<close>, \<open>disconnect\<close> leaves the three events with
  the observers they had before \<open>connect\<close>.
\<close>

theorem disconnect_safe:
  "(connectedInputText (keyboard w) = None \<longrightarrow> disconnect w = Inr w) \<and>
   (\<exists>w'. disconnect w = Inr w' \<and> connectedInputText (keyboard w') = None \<and>
         disconnect w' = Inr w') \<and>
   (connectedInputText (keyboard w) = Some input \<longrightarrow>
      (\<exists>w'. disconnect w = Inr w' \<and>
         onFocusObservable (inputs w' input) =
           removeObserver (onFocusObserver (keyboard w)) (onFocusObservable (inputs w input)) \<and>
         onBlurObservable (inputs w' input) =
           removeObserver (onBlurObserver (keyboard w)) (onBlurObservable (inputs w input)) \<and>
         onKeyPressObservable (keyboard w') =
           removeObserver (onKeyPressObserver (keyboard w)) (onKeyPressObservable (keyboard w)))) \<and>
   (\<exists>w'. disconnect (connect input w) = Inr w' \<and> connectedInputText (keyboard w') = None \<and>
         onFocusObservable (inputs w' input) = onFocusObservable (inputs w input) \<and>
         onBlurObservable (inputs w' input) = onBlurObservable (inputs w input) \<and>
         onKeyPressObservable (keyboard w') = onKeyPressObservable (keyboard w))"
proof (intro conjI impI)
  assume "connectedInputText (keyboard w) = None"
  then show "disconnect w = Inr w" by (rule disconnect_detached)
next
  show "\<exists>w'. disconnect w = Inr w' \<and> connectedInputText (keyboard w') = None \<and>
         disconnect w' = Inr w'"
  proof (cases "connectedInputText (keyboard w)")
    case None
    then show ?thesis by (simp add: disconnect_detached)
  next
    case (Some attached)
    show ?thesis
      by (simp add: disconnect_attached [OF Some] disconnect_detached)
  qed
next
  assume a: "connectedInputText (keyboard w) = Some input"
  show "\<exists>w'. disconnect w = Inr w' \<and>
         onFocusObservable (inputs w' input) =
           removeObserver (onFocusObserver (keyboard w)) (onFocusObservable (inputs w input)) \<and>
         onBlurObservable (inputs w' input) =
           removeObserver (onBlurObserver (keyboard w)) (onBlurObservable (inputs w input)) \<and>
         onKeyPressObservable (keyboard w') =
           removeObserver (onKeyPressObserver (keyboard w)) (onKeyPressObservable (keyboard w))"
    by (simp add: disconnect_attached [OF a])
next
  have c: "connectedInputText (keyboard (connect input w)) = Some input"
    by (simp add: connect_fields)
  show "\<exists>w'. disconnect (connect input w) = Inr w' \<and> connectedInputText (keyboard w') = None \<and>
         onFocusObservable (inputs w' input) = onFocusObservable (inputs w input) \<and>
         onBlurObservable (inputs w' input) = onBlurObservable (inputs w input) \<and>
         onKeyPressObservable (keyboard w') = onKeyPressObservable (keyboard w)"
    by (simp add: disconnect_attached [OF c] connect_fields removeObserver_new)
qed

theorem disconnect_safe_witness:
  "connectedInputText (keyboard exampleWorld) = None \<and> disconnect exampleWorld = Inr exampleWorld \<and>
   connectedInputText (keyboard connectedWorld) = Some 0 \<and>
   (\<exists>w'. disconnect connectedWorld = Inr w' \<and> connectedInputText (keyboard w') = None \<and>
         disconnect w' = Inr w' \<and>
         onFocusObservable (inputs w' 0) = [] \<and>
         onBlurObservable (inputs w' 0) = [] \<and>
         onKeyPressObservable (keyboard w') = [])"
proof -
  from disconnect_safe [of exampleWorld 0] exampleWorld_fields(3)
  have 1: "disconnect exampleWorld = Inr exampleWorld" by blast
  from disconnect_safe [of exampleWorld 0]
  obtain w' where w': "disconnect (connect 0 exampleWorld) = Inr w'"
    "connectedInputText (keyboard w') = None"
    "onFocusObservable (inputs w' 0) = onFocusObservable (inputs exampleWorld 0)"
    "onBlurObservable (inputs w' 0) = onBlurObservable (inputs exampleWorld 0)"
    "onKeyPressObservable (keyboard w') = onKeyPressObservable (keyboard exampleWorld)"
    by blast
  from disconnect_safe [of w' 0] w'(2) have 2: "disconnect w' = Inr w'" by blast
  from w' 2 have "disconnect connectedWorld = Inr w' \<and> connectedInputText (keyboard w') = None \<and>
         disconnect w' = Inr w' \<and>
         onFocusObservable (inputs w' 0) = [] \<and>
         onBlurObservable (inputs w' 0) = [] \<and>
         onKeyPressObservable (keyboard w') = []"
    by (simp add: connectedWorld_def exampleWorld_fields)
  with 1 exampleWorld_fields(3) connectedWorld_fields(2) show ?thesis by blast
qed

end
